theory Spec2Isabelle
  imports Complex_Main
begin

section \<open>Python values\<close>

text \<open>
  A Python \<open>str\<close> is modelled as the list of its Unicode code points, so that \<open>len\<close>
  is \<open>length\<close> and the emoji ranges of the sanitizers are ranges of numbers. A Python
  \<open>float\<close> is modelled by the rational number it holds. The planner, the duration estimate
  and the geometry of the heading compute with exact rationals; the audio timeline, whose
  claims compare floats for equality, rounds every operation as IEEE 754 binary64 does.
\<close>

type_synonym ustring = "nat list"

definition ustr :: "string \<Rightarrow> ustring" where
  "ustr s = map of_char s"

datatype py_error =
    ValueError
  | IndexError
  | KeyError
  | ZeroDivisionError
  | FileNotFoundError
  | TypeError
  | CouldntDecodeError
  | InvalidDuration
  | PyException

text \<open>\<open>text[:n]\<close>: a negative bound counts from the end.\<close>

definition slice_to :: "'a list \<Rightarrow> int \<Rightarrow> 'a list" where
  "slice_to xs n = (if 0 \<le> n then take (nat n) xs else take (nat (int (length xs) + n)) xs)"

text \<open>\<open>text.rfind(c)\<close> for a single character: the last index of \<open>c\<close>, or \<open>-1\<close>.\<close>

fun rfind_aux :: "ustring \<Rightarrow> nat \<Rightarrow> int \<Rightarrow> int \<Rightarrow> int" where
  "rfind_aux [] c i acc = acc"
| "rfind_aux (x # xs) c i acc = rfind_aux xs c (i + 1) (if x = c then i else acc)"

definition rfind :: "ustring \<Rightarrow> nat \<Rightarrow> int" where
  "rfind xs c = rfind_aux xs c 0 (- 1)"

text \<open>
  Whitespace as \<open>str.isspace\<close>, \<open>str.strip\<close>, \<open>str.split\<close> and the regular expression
  class \<open>\s\<close> see it on \<open>str\<close>.
\<close>

definition is_space :: "nat \<Rightarrow> bool" where
  "is_space c =
     ((9 \<le> c \<and> c \<le> 13) \<or> (28 \<le> c \<and> c \<le> 32) \<or> c = 133 \<or> c = 160 \<or> c = 5760 \<or>
      (8192 \<le> c \<and> c \<le> 8202) \<or> c = 8232 \<or> c = 8233 \<or> c = 8239 \<or> c = 8287 \<or> c = 12288)"

definition strip :: "ustring \<Rightarrow> ustring" where
  "strip text = rev (dropWhile is_space (rev (dropWhile is_space text)))"

text \<open>\<open>text.split()\<close>: the maximal runs of non-whitespace characters.\<close>

fun split_aux :: "ustring \<Rightarrow> ustring \<Rightarrow> ustring list" where
  "split_aux [] cur = (if cur = [] then [] else [cur])"
| "split_aux (c # cs) cur =
     (if is_space c then (if cur = [] then split_aux cs [] else cur # split_aux cs [])
      else split_aux cs (cur @ [c]))"

definition split_ws :: "ustring \<Rightarrow> ustring list" where
  "split_ws text = split_aux text []"

text \<open>
  \<open>str.lower\<close>, on the ASCII letters. No other code point lower-cases to an ASCII letter
  that the callers below look for.
\<close>

definition lower :: "ustring \<Rightarrow> ustring" where
  "lower text = map (\<lambda>c. if 65 \<le> c \<and> c \<le> 90 then c + 32 else c) text"

definition startswith :: "'a list \<Rightarrow> 'a list \<Rightarrow> bool" where
  "startswith text p = (take (length p) text = p)"

text \<open>\<open>needle in text\<close> for strings.\<close>

fun contains :: "ustring \<Rightarrow> ustring \<Rightarrow> bool" where
  "contains needle [] = (needle = [])"
| "contains needle (c # cs) = (startswith (c # cs) needle \<or> contains needle cs)"

section \<open>Responsive template engine (services/template\_service.py)\<close>

subsection \<open>\<open>TemplateService._truncate_text\<close>\<close>

text \<open>
  \<^verbatim>\<open>last_space > max_chars * 0.7\<close> compares an int with a float; the model compares
  the exact rationals.
\<close>

definition truncate_text :: "ustring \<Rightarrow> int \<Rightarrow> ustring" where
  "truncate_text text max_chars =
     (if int (length text) \<le> max_chars then text
      else
        let truncated = slice_to text max_chars;
            last_space = rfind truncated 32
        in if (of_int last_space :: rat) > of_int max_chars * (7 / 10)
           then slice_to truncated last_space @ ustr ''...''
           else truncated @ ustr ''...'')"

subsection \<open>\<open>ContainerSize\<close>, \<open>TemplateElement\<close> and the heading element\<close>

text \<open>
  Template definitions are JSON: the configuration of one element kind is a dict from
  ASCII keys to JSON scalars. Keys and enumerated labels are \<open>string\<close>s.
\<close>

datatype jvalue = JInt int | JStr string

type_synonym config = "string \<rightharpoonup> jvalue"

record ContainerSize =
  width :: int
  height :: int

definition breakpoint :: "ContainerSize \<Rightarrow> string" where
  "breakpoint cs =
     (if width cs < 768 then ''mobile''
      else if width cs < 1024 then ''tablet''
      else ''desktop'')"

record TemplateElement =
  el_id :: string
  el_type :: string
  x :: rat
  y :: rat
  el_width :: rat
  el_height :: rat
  el_text :: ustring
  fontSize :: int
  alignment :: jvalue
  color :: string
  backgroundColor :: string

text \<open>Python's \<open>int(x)\<close> on a float truncates toward zero.\<close>

definition py_int :: "rat \<Rightarrow> int" where
  "py_int r = (if 0 \<le> r then \<lfloor>r\<rfloor> else \<lceil>r\<rceil>)"

definition calculate_base_font_size :: "ContainerSize \<Rightarrow> int" where
  "calculate_base_font_size container_size =
     (if width container_size < 768 then max 14 (min 18 (width container_size div 30))
      else if width container_size < 1024 then max 16 (min 20 (width container_size div 45))
      else max 18 (min 24 (width container_size div 60)))"

definition font_size_map :: "int \<Rightarrow> jvalue \<rightharpoonup> int" where
  "font_size_map base_font_size label =
     (if label = JStr ''small'' then Some (py_int (of_int base_font_size * (12 / 10)))
      else if label = JStr ''medium'' then Some (py_int (of_int base_font_size * (15 / 10)))
      else if label = JStr ''large'' then Some (py_int (of_int base_font_size * (18 / 10)))
      else if label = JStr ''xlarge'' then Some (py_int (of_int base_font_size * (22 / 10)))
      else if label = JStr ''xxlarge'' then Some (py_int (of_int base_font_size * (26 / 10)))
      else None)"

definition heading_font_size :: "config \<Rightarrow> int \<Rightarrow> int" where
  "heading_font_size cfg base_font_size =
     (case font_size_map base_font_size (case cfg ''fontSize'' of None \<Rightarrow> JStr ''large'' | Some v \<Rightarrow> v) of
        Some n \<Rightarrow> n
      | None \<Rightarrow> base_font_size * 2)"

text \<open>
  \<open>config.get("maxChars", 50)\<close> must be a number for \<open>len(text) <= max_chars\<close>, and
  \<open>config["position"]\<close> must be present: otherwise Python raises.
\<close>

definition create_heading_element ::
  "config \<Rightarrow> ustring \<Rightarrow> ContainerSize \<Rightarrow> int \<Rightarrow> py_error + TemplateElement" where
  "create_heading_element cfg text container_size base_font_size =
     (let font_size = heading_font_size cfg base_font_size in
      case (case cfg ''maxChars'' of None \<Rightarrow> JInt 50 | Some v \<Rightarrow> v) of
        JStr _ \<Rightarrow> Inl TypeError
      | JInt max_chars \<Rightarrow>
          let display_text = truncate_text text max_chars;
              char_width = of_int font_size * (6 / 10);
              text_width = of_nat (length display_text) * char_width;
              text_height = of_int font_size * (14 / 10);
              padding = max 20 (of_int (width container_size) * (5 / 100))
          in (case cfg ''position'' of
               None \<Rightarrow> Inl KeyError
             | Some position \<Rightarrow>
                 let xy =
                       (if position = JStr ''center-top''
                        then ((of_int (width container_size) - text_width) / 2,
                              padding + of_int font_size * (5 / 10))
                        else if position = JStr ''left-top''
                        then (padding, padding + of_int font_size * (5 / 10))
                        else ((of_int (width container_size) - text_width) / 2,
                              padding + of_int font_size * (5 / 10)))
                 in Inr \<lparr> el_id = ''heading'', el_type = ''text'',
                          x = max padding (fst xy), y = snd xy,
                          el_width = min text_width (of_int (width container_size) - 2 * padding),
                          el_height = text_height,
                          el_text = display_text,
                          fontSize = font_size,
                          alignment = (case cfg ''alignment'' of None \<Rightarrow> JStr ''center'' | Some v \<Rightarrow> v),
                          color = ''#1971c2'',
                          backgroundColor = ''transparent'' \<rparr>))"

section \<open>Voice calibration (services/tts\_service.py)\<close>

record VoiceCalibrationData =
  voice_id :: ustring
  words_per_minute :: rat
  characters_per_second :: rat
  sample_count :: int
  last_updated :: string
  confidence_score :: rat

text \<open>The fields of \<open>PiperTTSService\<close> that the duration estimate reads.\<close>

record PiperTTSService =
  default_voice :: ustring
  voice_calibrations :: "ustring \<rightharpoonup> VoiceCalibrationData"

definition get_voice_speaking_rate :: "PiperTTSService \<Rightarrow> ustring \<Rightarrow> rat" where
  "get_voice_speaking_rate self vid =
     (case (case voice_calibrations self vid of
              None \<Rightarrow> None
            | Some cal \<Rightarrow> if confidence_score cal \<ge> 3 / 10 then Some (words_per_minute cal) else None) of
        Some r \<Rightarrow> r
      | None \<Rightarrow>
          let base_rate = 150 in
          if contains (ustr ''lessac'') (lower vid) then base_rate * (95 / 100)
          else if contains (ustr ''ryan'') (lower vid) then base_rate * (105 / 100)
          else if contains (ustr ''jenny'') (lower vid) then base_rate * (90 / 100)
          else base_rate)"

text \<open>
  \<open>voice or self.default_voice\<close>: \<open>None\<close> and the empty string select the default voice.
  A speaking rate of zero makes the division raise.
\<close>

definition voice_or_default :: "PiperTTSService \<Rightarrow> ustring option \<Rightarrow> ustring" where
  "voice_or_default self voice =
     (case voice of None \<Rightarrow> default_voice self
      | Some v \<Rightarrow> if v = [] then default_voice self else v)"

definition estimate_duration_with_calibration ::
  "PiperTTSService \<Rightarrow> ustring \<Rightarrow> ustring option \<Rightarrow> py_error + rat" where
  "estimate_duration_with_calibration self text voice =
     (if strip text = [] then Inr 0
      else
        let speaking_rate = get_voice_speaking_rate self (voice_or_default self voice);
            word_count = length (split_ws text)
        in if speaking_rate = 0 then Inl ZeroDivisionError
           else
             let base_duration = (of_nat word_count / speaking_rate) * 60;
                 buffer_factor = 13 / 10;
                 final_duration = base_duration * buffer_factor;
                 min_duration = of_nat (length text) * (5 / 100)
             in Inr (max (max final_duration min_duration) 1))"

section \<open>Lesson structure planner (services/lesson\_structure\_service.py)\<close>

record lesson_section =
  content_type :: string
  name :: string
  template_id :: string
  base_duration :: int
  priority :: int
  required :: bool
  description :: string

definition lesson_sections :: "lesson_section list" where
  "lesson_sections =
     [\<lparr>content_type = ''title-objective'', name = ''Title + Objective'',
       template_id = ''title-objective-1'', base_duration = 10, priority = 1, required = True,
       description = ''Lesson title and clear learning objectives''\<rparr>,
      \<lparr>content_type = ''context-motivation'', name = ''Context / Motivation'',
       template_id = ''context-motivation-1'', base_duration = 15, priority = 1, required = True,
       description = ''Why this topic matters and real-world relevance''\<rparr>,
      \<lparr>content_type = ''analogy'', name = ''Analogy'',
       template_id = ''analogy-1'', base_duration = 20, priority = 2, required = True,
       description = ''Relatable comparison to help understanding''\<rparr>,
      \<lparr>content_type = ''definition'', name = ''Definition'',
       template_id = ''definition-1'', base_duration = 15, priority = 1, required = True,
       description = ''Clear definition of key concepts''\<rparr>,
      \<lparr>content_type = ''step-by-step'', name = ''Step-by-step Explanation / Theory'',
       template_id = ''step-by-step-1'', base_duration = 30, priority = 1, required = True,
       description = ''Detailed explanation or process breakdown''\<rparr>,
      \<lparr>content_type = ''examples'', name = ''Examples'',
       template_id = ''examples-1'', base_duration = 25, priority = 1, required = True,
       description = ''Concrete examples and applications''\<rparr>,
      \<lparr>content_type = ''common-mistakes'', name = ''Common mistakes'',
       template_id = ''common-mistakes-1'', base_duration = 15, priority = 2, required = True,
       description = ''Common pitfalls and how to avoid them''\<rparr>,
      \<lparr>content_type = ''mini-recap'', name = ''Mini Recap'',
       template_id = ''mini-recap-1'', base_duration = 10, priority = 1, required = True,
       description = ''Summary of key points covered''\<rparr>,
      \<lparr>content_type = ''things-to-ponder'', name = ''Some things to ponder'',
       template_id = ''things-to-ponder-1'', base_duration = 10, priority = 2, required = True,
       description = ''Thought-provoking questions and extensions''\<rparr>]"

definition difficulty_multipliers :: "string \<rightharpoonup> rat" where
  "difficulty_multipliers =
     [''beginner'' \<mapsto> 8 / 10, ''intermediate'' \<mapsto> 1, ''advanced'' \<mapsto> 13 / 10]"

type_synonym topic_analysis = "string \<rightharpoonup> jvalue"

definition select_sections_for_duration ::
  "rat \<Rightarrow> string \<Rightarrow> topic_analysis \<Rightarrow> lesson_section list" where
  "select_sections_for_duration target_duration difficulty_level analysis =
     (if target_duration < 90
      then filter (\<lambda>section. content_type section \<in>
                     set [''title-objective'', ''definition'', ''examples'', ''mini-recap''])
             lesson_sections
      else if target_duration < 180
      then filter (\<lambda>section. content_type section \<in>
                     set [''title-objective'', ''context-motivation'', ''definition'',
                          ''examples'', ''common-mistakes'', ''mini-recap''])
             lesson_sections
      else lesson_sections)"

record selected_template =
  st_id :: string
  st_name :: string
  st_templateVariant :: "int option"

record layout_hints =
  slide_position :: int
  hint_total_slides :: int
  section_description :: string
  template_variant :: int

record SlideStructure =
  slide_number :: int
  ss_template_id :: string
  ss_template_name :: string
  ss_content_type :: string
  estimated_duration :: rat
  content_prompts :: "(string \<times> ustring) list"
  ss_layout_hints :: layout_hints
  ss_priority :: int

record LessonStructure =
  topic :: ustring
  difficulty_level :: string
  total_slides :: int
  estimated_total_duration :: rat
  slides :: "SlideStructure list"
  teaching_strategy :: jvalue
  content_flow :: "string list"

text \<open>
  The two collaborators of \<open>_generate_slide_structures\<close> that do not touch durations are
  parameters: \<open>_select_optimal_template\<close> (a lookup in the template catalog, which raises
  when the catalog is empty) and \<open>_generate_section_prompts\<close> (a table of prompt texts,
  which raises when the analysis holds a value of the wrong type, such as a \<open>key_concepts\<close>
  entry that is not a list of strings).
\<close>

record planner_env =
  select_optimal_template ::
    "lesson_section \<Rightarrow> ustring \<Rightarrow> string \<Rightarrow> topic_analysis \<Rightarrow> py_error + selected_template"
  generate_section_prompts ::
    "string \<Rightarrow> ustring \<Rightarrow> string \<Rightarrow> topic_analysis \<Rightarrow> py_error + (string \<times> ustring) list"

definition difficulty_multiplier :: "string \<Rightarrow> rat" where
  "difficulty_multiplier difficulty =
     (case difficulty_multipliers difficulty of Some m \<Rightarrow> m | None \<Rightarrow> 1)"

definition total_base_duration :: "string \<Rightarrow> lesson_section list \<Rightarrow> rat" where
  "total_base_duration difficulty selected_sections =
     sum_list (map (\<lambda>section. of_int (base_duration section) * difficulty_multiplier difficulty)
                 selected_sections)"

definition duration_scale :: "string \<Rightarrow> rat \<Rightarrow> lesson_section list \<Rightarrow> rat" where
  "duration_scale difficulty target_duration selected_sections =
     (if total_base_duration difficulty selected_sections > 0
      then target_duration / total_base_duration difficulty selected_sections
      else 1)"

text \<open>The loop \<open>for i, section in enumerate(selected_sections)\<close>, from index \<open>i\<close> on.\<close>

fun slide_loop ::
  "planner_env \<Rightarrow> ustring \<Rightarrow> string \<Rightarrow> topic_analysis \<Rightarrow> rat \<Rightarrow> rat \<Rightarrow> int \<Rightarrow> int \<Rightarrow>
   lesson_section list \<Rightarrow> py_error + SlideStructure list" where
  "slide_loop env tp difficulty analysis mult scale n i [] = Inr []"
| "slide_loop env tp difficulty analysis mult scale n i (section # rest) =
     (let base = of_int (base_duration section) * mult;
          scaled_duration = base * scale
      in case select_optimal_template env section tp difficulty analysis of
           Inl e \<Rightarrow> Inl e
         | Inr tmpl \<Rightarrow>
             (case generate_section_prompts env (content_type section) tp difficulty analysis of
                Inl e \<Rightarrow> Inl e
              | Inr prompts \<Rightarrow>
                  (let slide =
                         \<lparr> slide_number = i + 1,
                           ss_template_id = st_id tmpl,
                           ss_template_name = st_name tmpl,
                           ss_content_type = content_type section,
                           estimated_duration = max 8 scaled_duration,
                           content_prompts = prompts,
                           ss_layout_hints =
                             \<lparr> slide_position = i, hint_total_slides = n,
                               section_description = description section,
                               template_variant =
                                 (case st_templateVariant tmpl of None \<Rightarrow> 1 | Some v \<Rightarrow> v) \<rparr>,
                           ss_priority = priority section \<rparr>
                   in case slide_loop env tp difficulty analysis mult scale n (i + 1) rest of
                        Inl e \<Rightarrow> Inl e
                      | Inr following \<Rightarrow> Inr (slide # following))))"

definition generate_slide_structures ::
  "planner_env \<Rightarrow> ustring \<Rightarrow> string \<Rightarrow> rat \<Rightarrow> lesson_section list \<Rightarrow> topic_analysis \<Rightarrow>
   py_error + SlideStructure list" where
  "generate_slide_structures env tp difficulty target_duration selected_sections analysis =
     slide_loop env tp difficulty analysis
       (difficulty_multiplier difficulty)
       (duration_scale difficulty target_duration selected_sections)
       (int (length selected_sections)) 0 selected_sections"

text \<open>
  \<open>analyze_topic_structure\<close>, from the point where \<open>_analyze_topic_for_sections\<close> (the
  language model's analysis, or the static one when it fails) has returned \<open>analysis\<close>.
\<close>

definition analyze_topic_structure ::
  "planner_env \<Rightarrow> topic_analysis \<Rightarrow> ustring \<Rightarrow> string \<Rightarrow> rat \<Rightarrow> py_error + LessonStructure" where
  "analyze_topic_structure env analysis tp difficulty target_duration =
     (let selected_sections = select_sections_for_duration target_duration difficulty analysis
      in case generate_slide_structures env tp difficulty target_duration selected_sections analysis of
           Inl e \<Rightarrow> Inl e
         | Inr slide_structures \<Rightarrow>
             Inr \<lparr> topic = tp,
                   difficulty_level = difficulty,
                   total_slides = int (length slide_structures),
                   estimated_total_duration = sum_list (map estimated_duration slide_structures),
                   slides = slide_structures,
                   teaching_strategy =
                     (case analysis ''strategy'' of None \<Rightarrow> JStr ''structured'' | Some v \<Rightarrow> v),
                   content_flow = map ss_content_type slide_structures \<rparr>)"

section \<open>Audio timeline merger (utils/audio\_merger.py)\<close>

subsection \<open>Python floats\<close>

text \<open>
  The times that the merger and the endpoint compute are Python floats, that is IEEE 754
  binary64 numbers. A finite float is modelled by the rational number it holds, and an
  arithmetic operation by the exact operation followed by rounding to the nearest float,
  ties going to the even significand; below \<open>2^-1022\<close> the spacing of the floats is
  \<open>2^-1074\<close>. Infinities and NaN are not modelled: no time of a lesson comes near
  \<open>2^1024\<close> seconds.
\<close>

function py_bit_length :: "int \<Rightarrow> int" where
  "py_bit_length n = (if n \<le> 0 then 0 else 1 + py_bit_length (n div 2))"
  by pat_completeness auto

termination
  by (relation "measure nat") auto

declare py_bit_length.simps [simp del]

definition pow2 :: "int \<Rightarrow> rat" where
  "pow2 e = (if 0 \<le> e then 2 ^ nat e else 1 / 2 ^ nat (- e))"

definition round_half_even :: "rat \<Rightarrow> int" where
  "round_half_even r =
     (let f = \<lfloor>r\<rfloor>; rest = r - of_int f
      in if rest < 1 / 2 then f
         else if 1 / 2 < rest then f + 1
         else if even f then f else f + 1)"

text \<open>The exponent \<open>e\<close> of a non-zero number: \<open>2^e \<le> |r| < 2^(e+1)\<close>.\<close>

definition float_exponent :: "rat \<Rightarrow> int" where
  "float_exponent r =
     (case quotient_of \<bar>r\<bar> of (p, q) \<Rightarrow>
        let k = py_bit_length p - py_bit_length q
        in if pow2 k \<le> \<bar>r\<bar> then k else k - 1)"

definition float_round :: "rat \<Rightarrow> rat" where
  "float_round r =
     (if r = 0 then 0
      else let ulp = pow2 (max (float_exponent r) (- 1022) - 52)
           in of_int (round_half_even (r / ulp)) * ulp)"

text \<open>\<open>float(n)\<close> for an int, \<open>a / b\<close> and \<open>a + b\<close> on floats.\<close>

definition float_of_int :: "int \<Rightarrow> rat" where
  "float_of_int n = float_round (of_int n)"

definition float_truediv :: "rat \<Rightarrow> rat \<Rightarrow> rat" where
  "float_truediv a b = float_round (a / b)"

definition float_add :: "rat \<Rightarrow> rat \<Rightarrow> rat" where
  "float_add a b = float_round (a + b)"

text \<open>\<open>ms / 1000.0\<close> for an int \<open>ms\<close>: the int is converted to a float, then divided.\<close>

definition seconds :: "int \<Rightarrow> rat" where
  "seconds ms = float_truediv (float_of_int ms) 1000"

subsection \<open>Audio segments of \<open>pydub\<close>\<close>

text \<open>
  \<open>pydub\<close> is an external library. An \<open>AudioSegment\<close> is modelled by what the merger
  observes of it: its length in milliseconds (\<open>len(audio)\<close>) and its sample format.
  At the resolution of one millisecond, concatenation adds the lengths, a format
  conversion keeps the length, and \<open>AudioSegment.silent(duration=d)\<close> is \<open>d\<close> milliseconds
  long (empty for a negative \<open>d\<close>). Samples, and the rounding of frame counts to
  milliseconds, are below this resolution.

  A fade of \<open>d\<close> milliseconds raises for \<open>d = 0\<close> (\<open>end - start\<close> with \<open>start\<close> or \<open>end\<close>
  \<open>None\<close>) and for \<open>d < 0\<close> (\<open>InvalidDuration\<close>). It keeps the length of a clip that is at
  least \<open>d\<close> milliseconds long. On a shorter clip pydub's \<open>fade\<close> reads frames from both
  ends of the clip and returns audio of another length (98 ms for a fade-out of 50 ms on
  a clip of 49 ms): that length is a parameter of the model, \<open>short_fade_out\<close> and
  \<open>short_fade_in\<close>. Whether the directory of the output path can be created and the
  merged file written there is the parameter \<open>can_export\<close>.
\<close>

record audio =
  len_ms :: nat
  frame_rate :: nat
  channels :: nat
  sample_width :: nat

type_synonym path = ustring

record merger_env =
  can_export :: "path \<Rightarrow> bool"
  short_fade_out :: "nat \<Rightarrow> int \<Rightarrow> nat"
  short_fade_in :: "nat \<Rightarrow> int \<Rightarrow> nat"

definition set_frame_rate :: "audio \<Rightarrow> nat \<Rightarrow> audio" where
  "set_frame_rate a r = a\<lparr>frame_rate := r\<rparr>"

definition set_channels :: "audio \<Rightarrow> nat \<Rightarrow> audio" where
  "set_channels a c = a\<lparr>channels := c\<rparr>"

definition set_sample_width :: "audio \<Rightarrow> nat \<Rightarrow> audio" where
  "set_sample_width a w = a\<lparr>sample_width := w\<rparr>"

definition from_mono_audiosegments :: "audio \<Rightarrow> audio \<Rightarrow> audio" where
  "from_mono_audiosegments l r = l\<lparr>channels := 2\<rparr>"

definition fade_out :: "merger_env \<Rightarrow> audio \<Rightarrow> int \<Rightarrow> py_error + audio" where
  "fade_out env a d =
     (if d = 0 then Inl TypeError
      else if d < 0 then Inl InvalidDuration
      else if int (len_ms a) < d then Inr (a\<lparr>len_ms := short_fade_out env (len_ms a) d\<rparr>)
      else Inr a)"

definition fade_in :: "merger_env \<Rightarrow> audio \<Rightarrow> int \<Rightarrow> py_error + audio" where
  "fade_in env a d =
     (if d = 0 then Inl TypeError
      else if d < 0 then Inl InvalidDuration
      else if int (len_ms a) < d then Inr (a\<lparr>len_ms := short_fade_in env (len_ms a) d\<rparr>)
      else Inr a)"

definition silent :: "int \<Rightarrow> nat \<Rightarrow> audio" where
  "silent d r = \<lparr>len_ms = nat d, frame_rate = r, channels = 1, sample_width = 2\<rparr>"

text \<open>\<open>a + b\<close> on audio segments.\<close>

definition append_audio :: "audio \<Rightarrow> audio \<Rightarrow> audio" where
  "append_audio a b =
     \<lparr>len_ms = len_ms a + len_ms b,
      frame_rate = max (frame_rate a) (frame_rate b),
      channels = max (channels a) (channels b),
      sample_width = max (sample_width a) (sample_width b)\<rparr>"

text \<open>
  \<open>os.path.dirname\<close> on a POSIX path: the part before the last slash, without trailing
  slashes unless it consists of slashes only. It is empty for a bare file name, and
  \<open>os.makedirs('')\<close> raises \<open>FileNotFoundError\<close>.
\<close>

definition dirname :: "path \<Rightarrow> path" where
  "dirname p =
     (let i = nat (rfind p 47 + 1); head = take i p
      in if head \<noteq> [] \<and> head \<noteq> replicate (length head) 47
         then rev (dropWhile (\<lambda>c. c = 47) (rev head))
         else head)"

subsection \<open>\<open>AudioMerger\<close>\<close>

definition normalize_audio_format :: "audio \<Rightarrow> audio" where
  "normalize_audio_format a =
     (let target_sample_rate = 44100; target_channels = 2; target_sample_width = 2;
          n1 = (if frame_rate a \<noteq> target_sample_rate then set_frame_rate a target_sample_rate else a);
          n2 = (if channels n1 \<noteq> target_channels
                then (if target_channels = 2 \<and> channels n1 = 1 then from_mono_audiosegments n1 n1
                      else if target_channels = 1 \<and> channels n1 = 2 then set_channels n1 1
                      else set_channels n1 target_channels)
                else n1)
      in if sample_width n2 \<noteq> target_sample_width then set_sample_width n2 target_sample_width
         else n2)"

text \<open>
  The timing record of one slide (the dicts of \<open>audio_segments\<close>); its three times are
  floats. The files the merger reads: a path is absent, holds bytes that do not decode
  (\<open>Some None\<close>), or holds audio.
\<close>

record audio_segment =
  seg_slide_number :: int
  seg_text :: ustring
  start_time :: rat
  duration :: rat
  end_time :: rat
  audio_id :: "ustring option"
  audio_url :: "ustring option"

type_synonym files = "path \<rightharpoonup> audio option"

record AudioMerger =
  crossfade_duration_ms :: int
  pause_duration_ms :: int
  output_format :: string

text \<open>\<open>AudioSegment.from_file(path)\<close> on a path that exists.\<close>

definition from_file :: "files \<Rightarrow> path \<Rightarrow> py_error + audio" where
  "from_file fs p =
     (case fs p of
        Some (Some a) \<Rightarrow> Inr a
      | Some None \<Rightarrow> Inl CouldntDecodeError
      | None \<Rightarrow> Inl FileNotFoundError)"

text \<open>
  \<open>segment.copy()\<close> followed by \<open>update\<close> with the timing measured at \<open>current_time_ms\<close>:
  each time is a count of milliseconds divided by \<open>1000.0\<close>.
\<close>

definition timed_segment :: "audio_segment \<Rightarrow> int \<Rightarrow> int \<Rightarrow> audio_segment" where
  "timed_segment segment current_time_ms segment_duration_ms =
     segment\<lparr>start_time := seconds current_time_ms,
             duration := seconds segment_duration_ms,
             end_time := seconds (current_time_ms + segment_duration_ms)\<rparr>"

text \<open>
  The loop \<open>for i, audio_path in enumerate(audio_file_paths[1:], 1)\<close>; the state is
  \<open>(merged_audio, current_time_ms, updated_segments)\<close>.
\<close>

fun merge_loop ::
  "AudioMerger \<Rightarrow> merger_env \<Rightarrow> files \<Rightarrow> audio_segment list option \<Rightarrow> int \<Rightarrow> nat \<Rightarrow> path list \<Rightarrow>
   audio \<times> int \<times> audio_segment list \<Rightarrow> py_error + audio \<times> int \<times> audio_segment list" where
  "merge_loop self env fs segment_info fade_duration_ms i [] st = Inr st"
| "merge_loop self env fs segment_info fade_duration_ms i (audio_path # rest)
     (merged_audio, current_time_ms, updated_segments) =
     (case from_file fs audio_path of
        Inl e \<Rightarrow> Inl CouldntDecodeError
      | Inr next_audio_raw \<Rightarrow>
          let next_audio = normalize_audio_format next_audio_raw
          in (case fade_out env merged_audio fade_duration_ms of
                Inl e \<Rightarrow> Inl e
              | Inr merged_faded \<Rightarrow>
                  let silence = set_sample_width
                                  (set_channels
                                     (silent (pause_duration_ms self) (frame_rate merged_faded))
                                     (channels merged_faded))
                                  (sample_width merged_faded)
                  in (case fade_in env next_audio fade_duration_ms of
                        Inl e \<Rightarrow> Inl e
                      | Inr next_audio_faded \<Rightarrow>
                          let merged_audio' =
                                append_audio (append_audio merged_faded silence) next_audio_faded;
                              current_time_ms' = current_time_ms + pause_duration_ms self
                          in (case segment_info of
                                None \<Rightarrow>
                                  merge_loop self env fs segment_info fade_duration_ms (i + 1) rest
                                    (merged_audio', current_time_ms', updated_segments)
                              | Some info \<Rightarrow>
                                  if info \<noteq> [] \<and> i < length info
                                  then
                                    let segment_duration_ms = int (len_ms next_audio);
                                        segment = timed_segment (info ! i) current_time_ms'
                                                    segment_duration_ms
                                    in merge_loop self env fs segment_info fade_duration_ms (i + 1) rest
                                         (merged_audio', current_time_ms' + segment_duration_ms,
                                          updated_segments @ [segment])
                                  else
                                    merge_loop self env fs segment_info fade_duration_ms (i + 1) rest
                                      (merged_audio', current_time_ms', updated_segments)))))"

text \<open>
  A missing input file raises \<open>FileNotFoundError\<close> before the \<open>try\<close> block. Every
  exception inside the block is re-raised as a plain \<open>Exception\<close>: a clip that does not
  decode, a fade that raises, \<open>os.makedirs\<close> on the empty directory name of a bare file
  name, and a failure to create the directory or to write the file. The file written is
  read by no later step of the model, so only the returned triple is modelled.
\<close>

definition merge_audio_files_with_silence ::
  "AudioMerger \<Rightarrow> merger_env \<Rightarrow> files \<Rightarrow> path list \<Rightarrow> path \<Rightarrow> audio_segment list option \<Rightarrow> int \<Rightarrow>
   py_error + path \<times> rat \<times> audio_segment list" where
  "merge_audio_files_with_silence self env fs audio_file_paths output_path segment_info
     fade_duration_ms =
     (case audio_file_paths of
        [] \<Rightarrow> Inl ValueError
      | first_path # rest \<Rightarrow>
          if \<exists>audio_path \<in> set audio_file_paths. fs audio_path = None then Inl FileNotFoundError
          else
            (case from_file fs first_path of
               Inl e \<Rightarrow> Inl PyException
             | Inr first_audio \<Rightarrow>
                 let merged_audio = normalize_audio_format first_audio;
                     st = (case segment_info of
                             Some (first_info # _) \<Rightarrow>
                               let segment_duration_ms = int (len_ms merged_audio)
                               in (merged_audio, 0 + segment_duration_ms,
                                   [timed_segment first_info 0 segment_duration_ms])
                           | _ \<Rightarrow> (merged_audio, 0, []))
                 in (case merge_loop self env fs segment_info fade_duration_ms 1 rest st of
                       Inl e \<Rightarrow> Inl PyException
                     | Inr (merged_final, current_time_ms, updated_segments) \<Rightarrow>
                         if dirname output_path = [] then Inl PyException
                         else if \<not> can_export env output_path then Inl PyException
                         else Inr (output_path, seconds (int (len_ms merged_final)),
                                   updated_segments))))"

text \<open>
  The timeline in milliseconds that the timing claims speak of: \<open>clip_ms\<close> is the length of
  the normalized clip stored at a path, and segment \<open>i\<close> starts after the \<open>i\<close> clips and the
  \<open>i\<close> pauses before it.
\<close>

definition clip_ms :: "files \<Rightarrow> path \<Rightarrow> int" where
  "clip_ms fs p =
     (case from_file fs p of
        Inr a \<Rightarrow> int (len_ms (normalize_audio_format a))
      | Inl e \<Rightarrow> 0)"

definition start_ms :: "AudioMerger \<Rightarrow> files \<Rightarrow> path list \<Rightarrow> nat \<Rightarrow> int" where
  "start_ms self fs paths i =
     sum_list (map (clip_ms fs) (take i paths)) + int i * pause_duration_ms self"

section \<open>Post-merge timing update (routers/lesson.py, \<open>generate_lesson_merged_audio\<close>)\<close>

text \<open>
  \<open>segment.get("audio_id")\<close> as a condition: the id is present and not the empty string.
  The endpoint stores either \<open>None\<close> or the non-empty id returned by the TTS service.
\<close>

definition has_audio :: "audio_segment \<Rightarrow> bool" where
  "has_audio segment = (case audio_id segment of None \<Rightarrow> False | Some a \<Rightarrow> a \<noteq> [])"

text \<open>
  \<open>{seg.get("slide_number"): seg for seg in updated_segments}\<close>: a later segment with the
  same slide number replaces an earlier one.
\<close>

definition updated_segments_map :: "audio_segment list \<Rightarrow> int \<rightharpoonup> audio_segment" where
  "updated_segments_map updated_segments =
     map_of (rev (map (\<lambda>seg. (seg_slide_number seg, seg)) updated_segments))"

text \<open>
  The inner loop \<open>for j in range(i - 1, -1, -1)\<close>: the end time of the nearest segment
  before index \<open>i\<close> that has audio, or \<open>0.0\<close>.
\<close>

fun last_audio_end_time :: "audio_segment list \<Rightarrow> nat \<Rightarrow> rat" where
  "last_audio_end_time audio_segments 0 = 0"
| "last_audio_end_time audio_segments (Suc j) =
     (if has_audio (audio_segments ! j) then end_time (audio_segments ! j)
      else last_audio_end_time audio_segments j)"

text \<open>One iteration of \<open>for i, segment in enumerate(audio_segments)\<close>; the list is updated in place.\<close>

definition update_timing_step ::
  "(int \<rightharpoonup> audio_segment) \<Rightarrow> audio_segment list \<Rightarrow> nat \<Rightarrow> audio_segment list" where
  "update_timing_step segments_map audio_segments i =
     (let segment = audio_segments ! i in
      case segments_map (seg_slide_number segment) of
        Some updated_seg \<Rightarrow>
          audio_segments[i := segment\<lparr>start_time := start_time updated_seg,
                                      duration := duration updated_seg,
                                      end_time := end_time updated_seg\<rparr>]
      | None \<Rightarrow>
          let last_end = last_audio_end_time audio_segments i in
          audio_segments[i := segment\<lparr>start_time := last_end,
                                      end_time := float_add last_end (duration segment)\<rparr>])"

definition update_segment_timing ::
  "audio_segment list \<Rightarrow> audio_segment list \<Rightarrow> audio_segment list" where
  "update_segment_timing audio_segments updated_segments =
     fold (\<lambda>i segs. update_timing_step (updated_segments_map updated_segments) segs i)
       [0..<length audio_segments] audio_segments"

text \<open>\<open>PiperTTSService._get_audio_path\<close> and the selection of the clips to merge.\<close>

definition get_audio_path :: "path \<Rightarrow> ustring \<Rightarrow> path" where
  "get_audio_path cache_dir aid = cache_dir @ ustr ''/'' @ aid @ ustr ''.wav''"

definition segments_with_audio :: "files \<Rightarrow> path \<Rightarrow> audio_segment list \<Rightarrow> audio_segment list" where
  "segments_with_audio fs cache_dir audio_segments =
     filter (\<lambda>segment. case audio_id segment of
                          None \<Rightarrow> False
                        | Some a \<Rightarrow> a \<noteq> [] \<and> fs (get_audio_path cache_dir a) \<noteq> None)
       audio_segments"

definition audio_paths :: "path \<Rightarrow> audio_segment list \<Rightarrow> path list" where
  "audio_paths cache_dir with_audio =
     map (\<lambda>segment. get_audio_path cache_dir (case audio_id segment of Some a \<Rightarrow> a | None \<Rightarrow> []))
       with_audio"

text \<open>
  The block of \<open>generate_lesson_merged_audio\<close> that merges the clips and corrects the
  timing. \<open>merger.merge_audio_files(..., use_silence_padding=True)\<close> returns the result of
  \<open>merge_audio_files_with_silence\<close> with the default fade of 50 ms. The result is the
  segment list, the total duration and whether a merged asset exists; when merging raises,
  or there is nothing to merge, the estimated timing and \<open>current_time\<close> are kept. The
  clean-up of the clips follows the update and is not modelled.
\<close>

definition merge_lesson_audio ::
  "merger_env \<Rightarrow> files \<Rightarrow> path \<Rightarrow> path \<Rightarrow> audio_segment list \<Rightarrow> rat \<Rightarrow>
   audio_segment list \<times> rat \<times> bool" where
  "merge_lesson_audio env fs cache_dir merged_audio_path audio_segments current_time =
     (let with_audio = segments_with_audio fs cache_dir audio_segments;
          audio_file_paths = audio_paths cache_dir with_audio
      in if audio_file_paths = [] then (audio_segments, current_time, False)
         else
           let merger = \<lparr>crossfade_duration_ms = 1500, pause_duration_ms = 500,
                         output_format = ''wav''\<rparr>
           in case merge_audio_files_with_silence merger env fs audio_file_paths merged_audio_path
                     (Some with_audio) 50 of
                Inl e \<Rightarrow> (audio_segments, current_time, False)
              | Inr (output_path, total_duration, updated_segments) \<Rightarrow>
                  (update_segment_timing audio_segments updated_segments, total_duration, True))"

subsection \<open>Example lessons\<close>

text \<open>
  An environment in which every path can be written, and in which a fade on a clip that is
  too short doubles it or keeps it (what pydub does to a clip of 49 ms at the default fade
  of 50 ms). The clips of the examples are longer than the fade.
\<close>

definition example_env :: merger_env where
  "example_env =
     \<lparr>can_export = (\<lambda>p. True),
      short_fade_out = (\<lambda>l d. 2 * l),
      short_fade_in = (\<lambda>l d. l)\<rparr>"

definition example_merger :: AudioMerger where
  "example_merger =
     \<lparr>crossfade_duration_ms = 1500, pause_duration_ms = 500, output_format = ''wav''\<rparr>"

definition clip :: "nat \<Rightarrow> audio option" where
  "clip ms = Some \<lparr>len_ms = ms, frame_rate = 22050, channels = 1, sample_width = 2\<rparr>"

definition slide_segment :: "int \<Rightarrow> rat \<Rightarrow> rat \<Rightarrow> ustring option \<Rightarrow> audio_segment" where
  "slide_segment n start dur aid =
     \<lparr>seg_slide_number = n, seg_text = [], start_time = start, duration = dur,
      end_time = start + dur, audio_id = aid, audio_url = None\<rparr>"

text \<open>Three clips of 5.0, 3.2 and 4.8 seconds, with estimated durations of 6, 3 and 5 seconds.\<close>

definition three_clips :: files where
  "three_clips =
     [ustr ''cache/a.wav'' \<mapsto> clip 5000, ustr ''cache/b.wav'' \<mapsto> clip 3200,
      ustr ''cache/c.wav'' \<mapsto> clip 4800]"

definition three_paths :: "path list" where
  "three_paths = [ustr ''cache/a.wav'', ustr ''cache/b.wav'', ustr ''cache/c.wav'']"

definition three_segments :: "audio_segment list" where
  "three_segments =
     [slide_segment 1 0 6 (Some (ustr ''a'')), slide_segment 2 6 3 (Some (ustr ''b'')),
      slide_segment 3 9 5 (Some (ustr ''c''))]"

text \<open>Two clips of 1.506 and 1.0 seconds.\<close>

definition two_clips :: files where
  "two_clips = [ustr ''cache/a.wav'' \<mapsto> clip 1506, ustr ''cache/b.wav'' \<mapsto> clip 1000]"

text \<open>
  A lesson of four slides, the second and the fourth with audio of 5 and 3 seconds; and a
  lesson whose two segments carry the same slide number, the first with audio of 5 seconds.
\<close>

definition lesson_clips :: files where
  "lesson_clips = [ustr ''cache/a.wav'' \<mapsto> clip 5000, ustr ''cache/b.wav'' \<mapsto> clip 3000]"

definition lesson_segments :: "audio_segment list" where
  "lesson_segments =
     [slide_segment 1 0 2 None, slide_segment 2 2 6 (Some (ustr ''a'')),
      slide_segment 3 8 4 None, slide_segment 4 12 3 (Some (ustr ''b''))]"

definition repeated_slide_segments :: "audio_segment list" where
  "repeated_slide_segments =
     [slide_segment 1 0 6 (Some (ustr ''a'')), slide_segment 1 6 3 None]"

section \<open>Narration text sanitizer (services/ai\_tutor\_service.py, services/tts\_service.py)\<close>

subsection \<open>Regular-expression substitution\<close>

text \<open>
  \<open>re.sub(pattern, repl, text)\<close> scans the text from left to right; at each position it
  tries the pattern, and after a match it continues behind the matched characters. A
  matcher gets the character before the position (\<open>None\<close> at the start of the text, for
  \<open>^\<close>) and the rest of the text, and returns the replacement and the number of characters
  matched. Every pattern of the sanitizers matches at least one character.
\<close>

type_synonym matcher = "nat option \<Rightarrow> ustring \<Rightarrow> (ustring \<times> nat) option"

fun re_sub_aux :: "matcher \<Rightarrow> nat \<Rightarrow> nat option \<Rightarrow> ustring \<Rightarrow> ustring" where
  "re_sub_aux m skip prev [] = []"
| "re_sub_aux m (Suc k) prev (c # cs) = re_sub_aux m k (Some c) cs"
| "re_sub_aux m 0 prev (c # cs) =
     (case m prev (c # cs) of
        Some (out, n) \<Rightarrow> out @ re_sub_aux m (n - 1) (Some c) cs
      | None \<Rightarrow> c # re_sub_aux m 0 (Some c) cs)"

definition re_sub :: "matcher \<Rightarrow> ustring \<Rightarrow> ustring" where
  "re_sub m text = re_sub_aux m 0 None text"

text \<open>\<open>^\<close> under \<open>re.MULTILINE\<close>: at the start of the text or behind a newline.\<close>

definition at_line_start :: "nat option \<Rightarrow> bool" where
  "at_line_start prev = (prev = None \<or> prev = Some 10)"

text \<open>
  \<open>\d\<close> on \<open>str\<close>: the decimal digits of Unicode (category Nd), in blocks of ten, and the
  mathematical digits U+1D7CE to U+1D7FF.
\<close>

definition digit_blocks :: "nat list" where
  "digit_blocks =
     [0x30, 0x660, 0x6F0, 0x7C0, 0x966, 0x9E6, 0xA66, 0xAE6, 0xB66, 0xBE6, 0xC66, 0xCE6, 0xD66,
      0xDE6, 0xE50, 0xED0, 0xF20, 0x1040, 0x1090, 0x17E0, 0x1810, 0x1946, 0x19D0, 0x1A80,
      0x1A90, 0x1B50, 0x1BB0, 0x1C40, 0x1C50, 0xA620, 0xA8D0, 0xA900, 0xA9D0, 0xA9F0, 0xAA50,
      0xABF0, 0xFF10, 0x104A0, 0x10D30, 0x11066, 0x110F0, 0x11136, 0x111D0, 0x112F0, 0x11450,
      0x114D0, 0x11650, 0x116C0, 0x11730, 0x118E0, 0x11950, 0x11C50, 0x11D50, 0x11DA0,
      0x11F50, 0x16A60, 0x16AC0, 0x16B50, 0x1E140, 0x1E2F0, 0x1E4F0, 0x1E950, 0x1FBF0]"

definition is_digit :: "nat \<Rightarrow> bool" where
  "is_digit c =
     (list_ex (\<lambda>b. b \<le> c \<and> c \<le> b + 9) digit_blocks \<or> (0x1D7CE \<le> c \<and> c \<le> 0x1D7FF))"

text \<open>
  \<open>re.IGNORECASE\<close> on \<open>str\<close>, for a lower-case ASCII pattern character \<open>p\<close>: a letter
  matches both of its cases; \<open>i\<close> also matches U+0130 and U+0131, \<open>s\<close> also U+017F and
  \<open>k\<close> also U+212A.
\<close>

definition ci_char :: "nat \<Rightarrow> nat \<Rightarrow> bool" where
  "ci_char p c =
     (c = p \<or> (97 \<le> p \<and> p \<le> 122 \<and> c + 32 = p) \<or>
      (p = 105 \<and> (c = 304 \<or> c = 305)) \<or> (p = 115 \<and> c = 383) \<or> (p = 107 \<and> c = 8490))"

fun startswith_ci :: "ustring \<Rightarrow> ustring \<Rightarrow> bool" where
  "startswith_ci text [] = True"
| "startswith_ci [] (p # ps) = False"
| "startswith_ci (c # cs) (p # ps) = (ci_char p c \<and> startswith_ci cs ps)"

definition ws_run :: "ustring \<Rightarrow> nat" where
  "ws_run text = length (takeWhile is_space text)"


text \<open>\<open>^(NARRATION|Narration):\s*\<close> and \<open>^(EXPLANATION|Explanation):\s*\<close>, ignoring case.\<close>

definition prefix_matcher :: "ustring \<Rightarrow> matcher" where
  "prefix_matcher word prev text =
     (if at_line_start prev \<and> startswith_ci text (word @ [58])
      then Some ([], length word + 1 + ws_run (drop (length word + 1) text))
      else None)"

text \<open>\<open>^Step\s+\d+:\s*\<close>, ignoring case.\<close>

definition step_matcher :: matcher where
  "step_matcher prev text =
     (if at_line_start prev \<and> startswith_ci text (ustr ''step'')
      then
        let r1 = drop 4 text; w = ws_run r1; r2 = drop w r1;
            d = length (takeWhile is_digit r2); r3 = drop d r2
        in if 0 < w \<and> 0 < d \<and> startswith r3 [58]
           then Some ([], 4 + w + d + 1 + ws_run (drop 1 r3))
           else None
      else None)"

text \<open>
  \<open>D(.*?)D\<close> replaced by the group, for a delimiter \<open>D\<close>: the group is the shortest text
  without a newline that is followed by the delimiter.
\<close>

fun lazy_until :: "ustring \<Rightarrow> ustring \<Rightarrow> ustring option" where
  "lazy_until delim [] = None"
| "lazy_until delim (c # cs) =
     (if startswith (c # cs) delim then Some []
      else if c = 10 then None
      else map_option ((#) c) (lazy_until delim cs))"

definition delimited_matcher :: "ustring \<Rightarrow> matcher" where
  "delimited_matcher delim prev text =
     (if startswith text delim
      then (case lazy_until delim (drop (length delim) text) of
              Some g \<Rightarrow> Some (g, 2 * length delim + length g)
            | None \<Rightarrow> None)
      else None)"

text \<open>\<open>:\s*\*\*\<close> and \<open>:\s*\*\<close>, replaced by a colon and a space.\<close>

definition colon_before_matcher :: "ustring \<Rightarrow> matcher" where
  "colon_before_matcher stars prev text =
     (if startswith text [58]
      then let w = ws_run (drop 1 text)
           in if startswith (drop (1 + w) text) stars
              then Some (ustr '': '', 1 + w + length stars)
              else None
      else None)"

text \<open>
  \<open>:\s*$\<close> under \<open>re.MULTILINE\<close>, replaced by a period: the whitespace behind the colon
  runs to the end of the text, or the match backtracks to just before its last newline.
\<close>

definition colon_eol_matcher :: matcher where
  "colon_eol_matcher prev text =
     (if startswith text [58]
      then let w = takeWhile is_space (drop 1 text)
           in if drop (1 + length w) text = [] then Some ([46], 1 + length w)
              else if 10 \<in> set w then Some ([46], 1 + nat (rfind w 10))
              else None
      else None)"

text \<open>\<open>^#+\s*\<close> under \<open>re.MULTILINE\<close>.\<close>

definition header_matcher :: matcher where
  "header_matcher prev text =
     (if at_line_start prev
      then let h = length (takeWhile (\<lambda>c. c = 35) text)
           in if 0 < h then Some ([], h + ws_run (drop h text)) else None
      else None)"

text \<open>Three backquotes, characters other than a backquote, three backquotes.\<close>

definition code_block_matcher :: matcher where
  "code_block_matcher prev text =
     (if startswith text [96, 96, 96]
      then let r = takeWhile (\<lambda>c. c \<noteq> 96) (drop 3 text)
           in if startswith (drop (3 + length r) text) [96, 96, 96]
              then Some ([], 3 + length r + 3)
              else None
      else None)"

text \<open>A backquote, a group of characters other than a backquote, a backquote: the group.\<close>

definition inline_code_matcher :: matcher where
  "inline_code_matcher prev text =
     (if startswith text [96]
      then let r = takeWhile (\<lambda>c. c \<noteq> 96) (drop 1 text)
           in if startswith (drop (1 + length r) text) [96]
              then Some (r, 1 + length r + 1)
              else None
      else None)"

text \<open>\<open>\[([^\]]+)\]\([^\)]+\)\<close>, replaced by the link text.\<close>

definition link_matcher :: matcher where
  "link_matcher prev text =
     (if startswith text [91]
      then let r1 = takeWhile (\<lambda>c. c \<noteq> 93) (drop 1 text);
               t1 = drop (1 + length r1) text
           in if r1 \<noteq> [] \<and> startswith t1 [93, 40]
              then let r2 = takeWhile (\<lambda>c. c \<noteq> 41) (drop 2 t1);
                       t2 = drop (2 + length r2) t1
                   in if r2 \<noteq> [] \<and> startswith t2 [41]
                      then Some (r1, 1 + length r1 + 2 + length r2 + 1)
                      else None
              else None
      else None)"

text \<open>\<open>^\s*[-*+]\s+\<close> under \<open>re.MULTILINE\<close>.\<close>

definition bullet_matcher :: matcher where
  "bullet_matcher prev text =
     (if at_line_start prev
      then let w = ws_run text
           in (case drop w text of
                 [] \<Rightarrow> None
               | c # t2 \<Rightarrow>
                   if (c = 45 \<or> c = 42 \<or> c = 43) \<and> 0 < ws_run t2
                   then Some ([], w + 1 + ws_run t2)
                   else None)
      else None)"

text \<open>\<open>\s+\<close> replaced by one space; \<open>\.{2,}\<close> and \<open>\s*\.\s*\.\<close> replaced by one period.\<close>

definition whitespace_matcher :: matcher where
  "whitespace_matcher prev text =
     (let w = ws_run text in if 0 < w then Some ([32], w) else None)"

definition dots_matcher :: matcher where
  "dots_matcher prev text =
     (let d = length (takeWhile (\<lambda>c. c = 46) text) in if 2 \<le> d then Some ([46], d) else None)"

definition spaced_dots_matcher :: matcher where
  "spaced_dots_matcher prev text =
     (let w = ws_run text; t1 = drop w text
      in if startswith t1 [46]
         then let w2 = ws_run (drop 1 t1)
              in if startswith (drop (1 + w2) t1) [46]
                 then Some ([46], w + 1 + w2 + 1)
                 else None
         else None)"

text \<open>\<open>text.replace(old, new)\<close>: the occurrences of \<open>old\<close> from left to right, not overlapping.\<close>

fun replace_aux :: "ustring \<Rightarrow> ustring \<Rightarrow> nat \<Rightarrow> ustring \<Rightarrow> ustring" where
  "replace_aux old new skip [] = []"
| "replace_aux old new (Suc k) (c # cs) = replace_aux old new k cs"
| "replace_aux old new 0 (c # cs) =
     (if startswith (c # cs) old then new @ replace_aux old new (length old - 1) cs
      else c # replace_aux old new 0 cs)"

definition replace :: "ustring \<Rightarrow> ustring \<Rightarrow> ustring \<Rightarrow> ustring" where
  "replace text old new =
     (if old = [] then new @ concat (map (\<lambda>c. c # new) text)
      else replace_aux old new 0 text)"

subsection \<open>\<open>AITutorService._sanitize_text_for_tts\<close> and \<open>PiperTTSService._sanitize_text_for_tts\<close>\<close>









section \<open>Template content filler (services/template\_filling\_service.py)\<close>

subsection \<open>Strings\<close>

text \<open>\<open>text.split('\n')\<close>, \<open>sep.join(lines)\<close> and \<open>str(n)\<close> for an integer.\<close>

fun split_on_aux :: "nat \<Rightarrow> ustring \<Rightarrow> ustring \<Rightarrow> ustring list" where
  "split_on_aux sep [] cur = [cur]"
| "split_on_aux sep (c # cs) cur =
     (if c = sep then cur # split_on_aux sep cs [] else split_on_aux sep cs (cur @ [c]))"

definition split_on :: "nat \<Rightarrow> ustring \<Rightarrow> ustring list" where
  "split_on sep text = split_on_aux sep text []"

fun join :: "ustring \<Rightarrow> ustring list \<Rightarrow> ustring" where
  "join sep [] = []"
| "join sep [l] = l"
| "join sep (l # ls) = l @ sep @ join sep ls"

fun digits :: "nat \<Rightarrow> ustring" where
  "digits n = (if n < 10 then [48 + n] else digits (n div 10) @ [48 + n mod 10])"

definition str_int :: "int \<Rightarrow> ustring" where
  "str_int i = (if i < 0 then 45 # digits (nat (- i)) else digits (nat i))"

definition str_jvalue :: "jvalue \<Rightarrow> ustring" where
  "str_jvalue v = (case v of JInt i \<Rightarrow> str_int i | JStr t \<Rightarrow> ustr t)"

definition dict_get :: "config \<Rightarrow> string \<Rightarrow> jvalue \<Rightarrow> jvalue" where
  "dict_get cfg key dflt = (case cfg key of None \<Rightarrow> dflt | Some v \<Rightarrow> v)"

subsection \<open>\<open>_sanitize_llm_output\<close>\<close>

text \<open>\<open>\(\d+\s*(characters?|words?|chars?)\)\<close>, ignoring case.\<close>

definition count_word_matcher :: "ustring \<Rightarrow> ustring \<Rightarrow> nat option" where
  "count_word_matcher word text =
     (if startswith_ci text word
      then let t1 = drop (length word) text
           in if startswith_ci t1 [115] \<and> startswith (drop 1 t1) [41] then Some (length word + 2)
              else if startswith t1 [41] then Some (length word + 1)
              else None
      else None)"

definition count_annotation_matcher :: matcher where
  "count_annotation_matcher prev text =
     (if startswith text [40]
      then let d = length (takeWhile is_digit (drop 1 text));
               w = ws_run (drop (1 + d) text);
               t1 = drop (1 + d + w) text
           in if 0 < d
              then (case count_word_matcher (ustr ''character'') t1 of
                      Some n \<Rightarrow> Some ([], 1 + d + w + n)
                    | None \<Rightarrow>
                        (case count_word_matcher (ustr ''word'') t1 of
                           Some n \<Rightarrow> Some ([], 1 + d + w + n)
                         | None \<Rightarrow>
                             (case count_word_matcher (ustr ''char'') t1 of
                                Some n \<Rightarrow> Some ([], 1 + d + w + n)
                              | None \<Rightarrow> None)))
              else None
      else None)"

text \<open>\<open>:\s*#+\<close>, replaced by a colon and a space; \<open>:{2,}\<close>, replaced by one colon.\<close>

definition colon_hashes_matcher :: matcher where
  "colon_hashes_matcher prev text =
     (if startswith text [58]
      then let w = ws_run (drop 1 text);
               h = length (takeWhile (\<lambda>c. c = 35) (drop (1 + w) text))
           in if 0 < h then Some (ustr '': '', 1 + w + h) else None
      else None)"

definition colons_matcher :: matcher where
  "colons_matcher prev text =
     (let d = length (takeWhile (\<lambda>c. c = 58) text) in if 2 \<le> d then Some ([58], d) else None)"

text \<open>\<open>\*+\<close> and \<open>[\*_#`~\[\]]+\<close>, replaced by the empty string.\<close>

definition formatting_char :: "nat \<Rightarrow> bool" where
  "formatting_char c = (c = 42 \<or> c = 95 \<or> c = 35 \<or> c = 96 \<or> c = 126 \<or> c = 91 \<or> c = 93)"

text \<open>
  \<open>^(Option\s+\d+\s*[:\-\(]*\s*(Concise|Brief|Short|Long|Detailed)?\s*[:\-\)]*\s*)\<close>,
  ignoring case, at the start of the text only. Everything behind the number is optional,
  so the greedy match is the match.
\<close>

definition option_word_length :: "ustring \<Rightarrow> nat" where
  "option_word_length text =
     (if startswith_ci text (ustr ''concise'') then 7
      else if startswith_ci text (ustr ''brief'') then 5
      else if startswith_ci text (ustr ''short'') then 5
      else if startswith_ci text (ustr ''long'') then 4
      else if startswith_ci text (ustr ''detailed'') then 8
      else 0)"

definition option_prefix_matcher :: matcher where
  "option_prefix_matcher prev text =
     (if prev = None \<and> startswith_ci text (ustr ''option'')
      then let r1 = drop 6 text; w1 = ws_run r1; r2 = drop w1 r1;
               d = length (takeWhile is_digit r2); r3 = drop d r2
           in if 0 < w1 \<and> 0 < d
              then let w2 = ws_run r3; r4 = drop w2 r3;
                       p1 = length (takeWhile (\<lambda>c. c = 58 \<or> c = 45 \<or> c = 40) r4); r5 = drop p1 r4;
                       w3 = ws_run r5; r6 = drop w3 r5;
                       k = option_word_length r6; r7 = drop k r6;
                       w4 = ws_run r7; r8 = drop w4 r7;
                       p2 = length (takeWhile (\<lambda>c. c = 58 \<or> c = 45 \<or> c = 41) r8); r9 = drop p2 r8;
                       w5 = ws_run r9
                   in Some ([], 6 + w1 + d + w2 + p1 + w3 + k + w4 + p2 + w5)
              else None
      else None)"

text \<open>\<open>^[:\-\*\s]+\<close> and \<open>[:\-\*\s]+$\<close>: the leading and the trailing run of these characters.\<close>

definition artifact_char :: "nat \<Rightarrow> bool" where
  "artifact_char c = (c = 58 \<or> c = 45 \<or> c = 42 \<or> is_space c)"

definition sanitize_llm_output :: "ustring \<Rightarrow> ustring" where
  "sanitize_llm_output content =
     (if content = [] then content
      else
        let c1 = re_sub count_annotation_matcher content;
            c2 = re_sub (delimited_matcher [42, 42]) c1;
            c3 = re_sub (delimited_matcher [42]) c2;
            c4 = filter (\<lambda>c. c \<noteq> 42) c3;
            c5 = re_sub (delimited_matcher [95, 95]) c4;
            c6 = re_sub (delimited_matcher [95]) c5;
            c7 = re_sub header_matcher c6;
            c8 = re_sub code_block_matcher c7;
            c9 = re_sub inline_code_matcher c8;
            c10 = re_sub link_matcher c9;
            c11 = re_sub (colon_before_matcher [42, 42]) c10;
            c12 = re_sub (colon_before_matcher [42]) c11;
            c13 = re_sub colon_hashes_matcher c12;
            c14 = filter (\<lambda>c. \<not> formatting_char c) c13;
            c15 = re_sub colons_matcher c14;
            c16 = re_sub option_prefix_matcher c15;
            c17 = re_sub whitespace_matcher c16;
            c18 = dropWhile artifact_char c17;
            c19 = rev (dropWhile artifact_char (rev c18))
        in strip c19)"

subsection \<open>Templates, the object store and the responsive constraints\<close>

text \<open>
  A template is a JSON document held in the catalog of \<open>TemplateService\<close>. The dicts that
  configure the element kinds of a layout are Python objects that several dicts can refer
  to, so they live in a store and a layout maps each element kind to the address of its
  configuration. The dict of overrides of a breakpoint is only read.
\<close>

type_synonym addr = nat

type_synonym store = "addr \<rightharpoonup> config"

record slide =
  s_id :: string
  layout :: "(string \<times> addr) list"
  responsive :: "string \<rightharpoonup> (string \<times> config) list"
  placeholders :: "(string \<times> ustring) list"
  llmPrompts :: "string \<rightharpoonup> ustring"
  fallbackData :: "string \<rightharpoonup> ustring"

record template =
  t_id :: string
  t_name :: string
  t_slides :: "slide list"

type_synonym constraints = "(string \<times> config) list"

definition deref :: "store \<Rightarrow> addr \<Rightarrow> config" where
  "deref st a = (case st a of None \<Rightarrow> Map.empty | Some cfg \<Rightarrow> cfg)"

definition extract_constraints :: "(string \<times> addr) list \<Rightarrow> store \<Rightarrow> constraints" where
  "extract_constraints lay st =
     map (\<lambda>(element_type, a).
            (element_type,
             [''maxChars'' \<mapsto> dict_get (deref st a) ''maxChars'' (JInt 300),
              ''maxLines'' \<mapsto> dict_get (deref st a) ''maxLines'' (JInt 5),
              ''format'' \<mapsto> dict_get (deref st a) ''format'' (JStr ''text'')]))
       lay"

text \<open>
  The loop \<open>for element_type, overrides in responsive_overrides.items()\<close>.
  \<open>layout[element_type].update(overrides)\<close> writes into the object that the layout refers to.
\<close>

fun apply_overrides :: "(string \<times> addr) list \<Rightarrow> (string \<times> config) list \<Rightarrow> store \<Rightarrow> store" where
  "apply_overrides lay [] st = st"
| "apply_overrides lay ((element_type, overrides) # rest) st =
     (case map_of lay element_type of
        Some a \<Rightarrow> apply_overrides lay rest (st(a \<mapsto> deref st a ++ overrides))
      | None \<Rightarrow> apply_overrides lay rest st)"

text \<open>
  \<open>_get_responsive_constraints\<close>. \<open>slide["layout"].copy()\<close> copies the dict of the layout,
  not the configurations it refers to: the copy holds the same addresses.
\<close>

definition get_responsive_constraints ::
  "slide \<Rightarrow> (string \<times> int) list option \<Rightarrow> store \<Rightarrow> constraints \<times> store" where
  "get_responsive_constraints sl container_size st =
     (case container_size of
        None \<Rightarrow> (extract_constraints (layout sl) st, st)
      | Some [] \<Rightarrow> (extract_constraints (layout sl) st, st)
      | Some cs \<Rightarrow>
          let w = (case map_of cs ''width'' of None \<Rightarrow> 800 | Some v \<Rightarrow> v);
              bp = (if w < 768 then ''mobile'' else if w < 1024 then ''tablet'' else ''desktop'');
              layout_copy = layout sl;
              responsive_overrides = (case responsive sl bp of None \<Rightarrow> [] | Some ov \<Rightarrow> ov);
              st' = apply_overrides layout_copy responsive_overrides st
          in (extract_constraints layout_copy st', st'))"

text \<open>
  \<open>TemplateService._merge_layout_config\<close>, the merge of the rendering path: it copies
  each configuration before it applies the overrides, and writes nothing to the store.
\<close>

definition merge_layout_config ::
  "store \<Rightarrow> (string \<times> addr) list \<Rightarrow> (string \<rightharpoonup> config) \<Rightarrow> (string \<times> config) list" where
  "merge_layout_config st base_layout responsive_overrides =
     map (\<lambda>(element_type, a).
            (element_type,
             (case responsive_overrides element_type of
                None \<Rightarrow> deref st a
              | Some ov \<Rightarrow> deref st a ++ ov)))
       base_layout"

subsection \<open>Prompts, the language model and the trimming of its answer\<close>

definition build_prompt :: "ustring \<Rightarrow> ustring \<Rightarrow> config \<Rightarrow> ustring" where
  "build_prompt prompt_template tp cons =
     (let p1 = replace prompt_template (ustr ''{{TOPIC}}'') tp;
          p2 = replace p1 (ustr ''{maxChars}'') (str_jvalue (dict_get cons ''maxChars'' (JInt 300)));
          p3 = replace p2 (ustr ''{maxLines}'') (str_jvalue (dict_get cons ''maxLines'' (JInt 5)))
      in if dict_get cons ''format'' (JStr ''text'') = JStr ''bullets''
         then p3 @ ustr '' Use bullet points with '' @ [8226] @ ustr '' symbols.''
         else p3)"

text \<open>
  \<open>_validate_and_trim_content\<close>. A limit that is not a number makes the slice or the
  comparison raise \<open>TypeError\<close>.
\<close>

definition bullet_line :: "ustring \<Rightarrow> ustring list" where
  "bullet_line line0 =
     (let line = strip line0
      in if line = [] then []
         else if \<not> startswith line [8226] \<and> \<not> startswith line [45]
         then [[8226, 32] @ line]
         else [line])"

definition validate_and_trim_content :: "ustring \<Rightarrow> config \<Rightarrow> py_error + ustring" where
  "validate_and_trim_content content cons =
     (case (dict_get cons ''maxChars'' (JInt 300), dict_get cons ''maxLines'' (JInt 5)) of
        (JInt max_chars, JInt max_lines) \<Rightarrow>
          let lines = split_on 10 content;
              content1 =
                (if dict_get cons ''format'' (JStr ''text'') = JStr ''bullets''
                 then join [10] (concat (map bullet_line (slice_to lines max_lines)))
                 else if int (length lines) > max_lines then join [10] (slice_to lines max_lines)
                 else content)
          in if int (length content1) > max_chars
             then
               let trimmed = slice_to content1 max_chars;
                   last_space = rfind trimmed 32
               in if (of_int last_space :: rat) > of_int max_chars * (7 / 10)
                  then Inr (slice_to trimmed last_space @ ustr ''...'')
                  else Inr (trimmed @ ustr ''...'')
             else Inr content1
      | _ \<Rightarrow> Inl TypeError)"

text \<open>
  The language model is a collaborator: \<open>_make_request\<close> raises, returns \<open>None\<close> or returns a
  text. Its answer to the \<open>n\<close>-th request of a fill may depend on \<open>n\<close> and on the prompt.
\<close>

datatype llm_response = LlmRaises | LlmReturns "ustring option"

type_synonym llm = "nat \<Rightarrow> ustring \<Rightarrow> llm_response"

record TemplateFiller =
  ollama_service :: "llm option"

text \<open>
  \<open>_call_llm\<close>, as the \<open>n\<close>-th request. The result carries the response of the service when
  the service was called. Every failure leaves as a plain \<open>Exception\<close>.
\<close>

definition call_llm ::
  "TemplateFiller \<Rightarrow> nat \<Rightarrow> ustring \<Rightarrow> config \<Rightarrow> llm_response list \<times> (py_error + ustring)" where
  "call_llm self n prompt cons =
     (case ollama_service self of
        None \<Rightarrow> ([], Inl PyException)
      | Some service \<Rightarrow>
          let enhanced_prompt =
                prompt @ ustr '' Keep your response under '' @
                str_jvalue (dict_get cons ''maxChars'' (JInt 300)) @
                ustr '' characters and make it clear and direct.'';
              response = service n enhanced_prompt
          in (case response of
                LlmRaises \<Rightarrow> ([response], Inl PyException)
              | LlmReturns None \<Rightarrow> ([response], Inl PyException)
              | LlmReturns (Some response_text) \<Rightarrow>
                  if response_text = [] \<or> strip response_text = []
                  then ([response], Inl PyException)
                  else (case validate_and_trim_content (strip response_text) cons of
                          Inl e \<Rightarrow> ([response], Inl PyException)
                        | Inr validated_content \<Rightarrow> ([response], Inr validated_content))))"

text \<open>
  The loop of \<open>_generate_content_with_llm\<close> over \<open>placeholders.items()\<close>, with the responses
  of the service so far and the content filled so far.
\<close>

fun fill_placeholders ::
  "TemplateFiller \<Rightarrow> slide \<Rightarrow> ustring \<Rightarrow> constraints \<Rightarrow> (string \<times> ustring) list \<Rightarrow>
   llm_response list \<Rightarrow> (string \<rightharpoonup> ustring) \<Rightarrow>
   llm_response list \<times> (py_error + (string \<rightharpoonup> ustring))" where
  "fill_placeholders self sl tp cons [] trace filled = (trace, Inr filled)"
| "fill_placeholders self sl tp cons ((placeholder_key, placeholder_value) # rest) trace filled =
     (case llmPrompts sl placeholder_key of
        Some prompt_template \<Rightarrow>
          let element_constraints =
                (case map_of cons placeholder_key of None \<Rightarrow> Map.empty | Some c \<Rightarrow> c);
              prompt = build_prompt prompt_template tp element_constraints
          in (case call_llm self (length trace) prompt element_constraints of
                (responses, Inl e) \<Rightarrow> (trace @ responses, Inl e)
              | (responses, Inr raw_content) \<Rightarrow>
                  fill_placeholders self sl tp cons rest (trace @ responses)
                    (filled(placeholder_key \<mapsto> sanitize_llm_output raw_content)))
      | None \<Rightarrow>
          fill_placeholders self sl tp cons rest trace
            (filled(placeholder_key \<mapsto>
               (case fallbackData sl placeholder_key of
                  Some v \<Rightarrow> v
                | None \<Rightarrow> ustr ''[No content generated for '' @ ustr placeholder_key @ ustr '']''))))"

definition generate_content_with_llm ::
  "TemplateFiller \<Rightarrow> slide \<Rightarrow> ustring \<Rightarrow> constraints \<Rightarrow>
   llm_response list \<times> (py_error + (string \<rightharpoonup> ustring))" where
  "generate_content_with_llm self sl tp cons =
     fill_placeholders self sl tp cons (placeholders sl) [] Map.empty"

subsection \<open>\<open>fill_template\<close>\<close>

record fill_metadata =
  generation_method :: string
  md_template_name :: string
  md_constraints :: "constraints option"
  md_slide_id :: string
  md_reason :: "string option"

record FilledTemplate =
  ft_template_id :: string
  ft_topic :: ustring
  slide_index :: int
  filled_content :: "string \<rightharpoonup> ustring"
  metadata :: fill_metadata
  is_fallback :: bool

text \<open>\<open>template["slides"][slide_index]\<close>: a negative index counts from the end.\<close>

definition py_index :: "'a list \<Rightarrow> int \<Rightarrow> py_error + 'a" where
  "py_index items idx =
     (if 0 \<le> idx \<and> idx < int (length items) then Inr (items ! nat idx)
      else if idx < 0 \<and> - int (length items) \<le> idx then Inr (items ! nat (int (length items) + idx))
      else Inl IndexError)"

definition create_fallback_template :: "template \<Rightarrow> ustring \<Rightarrow> int \<Rightarrow> py_error + FilledTemplate" where
  "create_fallback_template tmpl tp idx =
     (case py_index (t_slides tmpl) idx of
        Inl e \<Rightarrow> Inl e
      | Inr sl \<Rightarrow>
          Inr \<lparr> ft_template_id = t_id tmpl, ft_topic = tp, slide_index = idx,
                filled_content = fallbackData sl,
                metadata = \<lparr> generation_method = ''fallback'', md_template_name = t_name tmpl,
                             md_constraints = None, md_slide_id = s_id sl,
                             md_reason = Some ''LLM generation failed'' \<rparr>,
                is_fallback = True \<rparr>)"

text \<open>
  \<open>fill_template\<close> returns its result, or raises, and leaves the store as the resolution of
  the constraints left it.
\<close>

definition fill_template ::
  "TemplateFiller \<Rightarrow> store \<Rightarrow> template \<Rightarrow> ustring \<Rightarrow> int \<Rightarrow> (string \<times> int) list option \<Rightarrow>
   (py_error + FilledTemplate) \<times> store" where
  "fill_template self st tmpl tp idx container_size =
     (if idx \<ge> int (length (t_slides tmpl)) then (Inl ValueError, st)
      else
        (case py_index (t_slides tmpl) idx of
           Inl e \<Rightarrow> (Inl e, st)
         | Inr sl \<Rightarrow>
             (case get_responsive_constraints sl container_size st of
                (cons, st') \<Rightarrow>
                  (case snd (generate_content_with_llm self sl tp cons) of
                     Inr filled \<Rightarrow>
                       (Inr \<lparr> ft_template_id = t_id tmpl, ft_topic = tp, slide_index = idx,
                              filled_content = filled,
                              metadata = \<lparr> generation_method = ''llm'',
                                           md_template_name = t_name tmpl,
                                           md_constraints = Some cons, md_slide_id = s_id sl,
                                           md_reason = None \<rparr>,
                              is_fallback = False \<rparr>, st')
                   | Inl e \<Rightarrow> (create_fallback_template tmpl tp idx, st')))))"

text \<open>
  A catalog entry to run the filler on: one slide with a heading and a content element,
  and an override of the heading's \<open>maxChars\<close> for the mobile breakpoint.
\<close>

definition example_store :: store where
  "example_store =
     [0 \<mapsto> [''maxChars'' \<mapsto> JInt 50, ''fontSize'' \<mapsto> JStr ''large'',
             ''position'' \<mapsto> JStr ''center-top''],
      1 \<mapsto> [''maxChars'' \<mapsto> JInt 200, ''maxLines'' \<mapsto> JInt 4]]"

definition example_slide :: slide where
  "example_slide =
     \<lparr> s_id = ''slide-1'',
       layout = [(''heading'', 0), (''content'', 1)],
       responsive = [''mobile'' \<mapsto> [(''heading'', [''maxChars'' \<mapsto> JInt 30])]],
       placeholders = [(''heading'', ustr ''Heading''), (''content'', ustr ''Content'')],
       llmPrompts = [''heading'' \<mapsto> ustr ''Title for {{TOPIC}}'',
                     ''content'' \<mapsto> ustr ''Explain {{TOPIC}}''],
       fallbackData = [''heading'' \<mapsto> ustr ''Overview'', ''content'' \<mapsto> ustr ''Details''] \<rparr>"

definition example_template :: template where
  "example_template =
     \<lparr> t_id = ''definition-1'', t_name = ''Definition'', t_slides = [example_slide] \<rparr>"

section \<open>Properties\<close>

lemma rfind_aux_range:
  "rfind_aux xs c i acc = acc \<or> (i \<le> rfind_aux xs c i acc \<and> rfind_aux xs c i acc < i + int (length xs))"
proof (induction xs arbitrary: i acc)
  case Nil
  show ?case by simp
next
  case (Cons x xs)
  from Cons.IH [of "i + 1" "if x = c then i else acc"]
  show ?case by (auto split: if_splits)
qed

lemma rfind_range: "- 1 \<le> rfind xs c \<and> rfind xs c < int (length xs)"
  using rfind_aux_range [of xs c 0 "- 1"] by (auto simp: rfind_def)

text \<open>
  C10. For every text and every positive \<open>max_chars\<close>, \<open>_truncate_text\<close> returns the text
  unchanged when it has at most \<open>max_chars\<close> characters; otherwise the result ends in
  \<open>...\<close> and has at most \<open>max_chars + 3\<close> characters, so it may exceed the limit by the
  three characters of the ellipsis and by no more.
\<close>

theorem truncate_text_length:
  assumes "0 < max_chars"
  shows "(int (length text) \<le> max_chars \<longrightarrow> truncate_text text max_chars = text) \<and>
         (max_chars < int (length text) \<longrightarrow>
            (\<exists>p. truncate_text text max_chars = p @ ustr ''...'') \<and>
            int (length (truncate_text text max_chars)) \<le> max_chars + 3)"
proof -
  have r: "rfind (slice_to text max_chars) 32 < int (length (slice_to text max_chars))"
    using rfind_range by blast
  have l: "int (length (slice_to text max_chars)) \<le> max_chars"
    using assms by (simp add: slice_to_def)
  have d: "length (ustr ''...'') = 3"
    by (simp add: ustr_def)
  show ?thesis
    using r l d assms
    by (auto simp: truncate_text_def Let_def slice_to_def)
qed

text \<open>The bound is reached: five characters without a space, cut to five and the ellipsis.\<close>

theorem truncate_text_length_witness:
  "(0::int) < 5 \<and> truncate_text (ustr ''abcdefgh'') 5 = ustr ''abcde...'' \<and>
   int (length (truncate_text (ustr ''abcdefgh'') 5)) \<le> 5 + 3 \<and>
   truncate_text (ustr ''abc'') 5 = ustr ''abc''"
  using truncate_text_length [of 5 "ustr ''abcdefgh''"] truncate_text_length [of 5 "ustr ''abc''"]
  by (simp add: truncate_text_def slice_to_def rfind_def ustr_def)

subsection \<open>Heading font size at width 375\<close>

lemma font_size_map_14:
  "font_size_map 14 (JStr ''small'') = Some 16"
  "font_size_map 14 (JStr ''medium'') = Some 21"
  "font_size_map 14 (JStr ''large'') = Some 25"
  "font_size_map 14 (JStr ''xlarge'') = Some 30"
  "font_size_map 14 (JStr ''xxlarge'') = Some 36"
  by code_simp+

lemma font_size_map_cases:
  "font_size_map b l = None \<or> l \<in> JStr ` {''small'', ''medium'', ''large'', ''xlarge'', ''xxlarge''}"
  by (simp add: font_size_map_def)

lemma heading_font_size_14:
  "heading_font_size cfg 14 \<in> {16, 21, 25, 30, 36, 28}"
proof -
  let ?l = "case cfg ''fontSize'' of None \<Rightarrow> JStr ''large'' | Some v \<Rightarrow> v"
  from font_size_map_cases [of 14 ?l] show ?thesis
    unfolding heading_font_size_def
    by (elim disjE imageE insertE emptyE) (simp_all add: font_size_map_14)
qed

lemma create_heading_element_fontSize:
  "create_heading_element cfg text cs b = Inr el \<Longrightarrow> fontSize el = heading_font_size cfg b"
  by (auto simp: create_heading_element_def Let_def split: jvalue.splits option.splits)

lemma heading_small_375:
  "create_heading_element
     [''fontSize'' \<mapsto> JStr ''small'', ''position'' \<mapsto> JStr ''center-top'']
     (ustr ''Hi'') \<lparr>width = 375, height = 667\<rparr>
     (calculate_base_font_size \<lparr>width = 375, height = 667\<rparr>) =
   Inr \<lparr>el_id = ''heading'', el_type = ''text'', x = 1779 / 10, y = 28,
        el_width = 96 / 5, el_height = 112 / 5, el_text = ustr ''Hi'',
        fontSize = 16, alignment = JStr ''center'', color = ''#1971c2'',
        backgroundColor = ''transparent''\<rparr>"
  by code_simp

text \<open>
  C8 as stated fails: at width 375 the base font size is 14, and the size of a \<open>small\<close>
  heading is \<open>int(14 * 1.2) = 16\<close>, below the claimed lower bound \<open>16.8\<close>.
\<close>

theorem heading_font_size_counterexample:
  "create_heading_element
     [''fontSize'' \<mapsto> JStr ''small'', ''position'' \<mapsto> JStr ''center-top'']
     (ustr ''Hi'') \<lparr>width = 375, height = 667\<rparr>
     (calculate_base_font_size \<lparr>width = 375, height = 667\<rparr>) =
   Inr \<lparr>el_id = ''heading'', el_type = ''text'', x = 1779 / 10, y = 28,
        el_width = 96 / 5, el_height = 112 / 5, el_text = ustr ''Hi'',
        fontSize = 16, alignment = JStr ''center'', color = ''#1971c2'',
        backgroundColor = ''transparent''\<rparr> \<and>
   \<not> ((168 / 10 :: rat) \<le> of_int 16)"
  using heading_small_375 by simp

text \<open>
  C8, amended. For a container of width 375 every heading element produced by
  \<open>_create_heading_element\<close> has an integer font size fixed by the label of its
  configuration: 16 for small, 21 for medium, 25 for large (also when the configuration
  names no size), 30 for xlarge, 36 for xxlarge, and 28 for an unrecognised label. So the
  size lies in \<open>[16, 46.8]\<close>: the lower bound is \<open>int(14 * 1.2) = 16\<close>, since the engine
  truncates the product to an integer.
\<close>

theorem heading_font_size_mobile:
  assumes "width cs = 375"
    and "create_heading_element cfg text cs (calculate_base_font_size cs) = Inr el"
  shows "fontSize el =
           (case cfg ''fontSize'' of
              None \<Rightarrow> 25
            | Some label \<Rightarrow>
                if label = JStr ''small'' then 16
                else if label = JStr ''medium'' then 21
                else if label = JStr ''large'' then 25
                else if label = JStr ''xlarge'' then 30
                else if label = JStr ''xxlarge'' then 36
                else 28) \<and>
         (16 :: rat) \<le> of_int (fontSize el) \<and> (of_int (fontSize el) :: rat) \<le> 468 / 10"
proof -
  have b: "calculate_base_font_size cs = 14"
    using assms(1) by (simp add: calculate_base_font_size_def)
  have f: "fontSize el = heading_font_size cfg 14"
    using create_heading_element_fontSize [OF assms(2)] b by simp
  have other: "font_size_map 14 l = None"
    if "l \<noteq> JStr ''small''" "l \<noteq> JStr ''medium''" "l \<noteq> JStr ''large''"
       "l \<noteq> JStr ''xlarge''" "l \<noteq> JStr ''xxlarge''" for l
    using that by (simp add: font_size_map_def)
  have table: "fontSize el =
           (case cfg ''fontSize'' of
              None \<Rightarrow> 25
            | Some label \<Rightarrow>
                if label = JStr ''small'' then 16
                else if label = JStr ''medium'' then 21
                else if label = JStr ''large'' then 25
                else if label = JStr ''xlarge'' then 30
                else if label = JStr ''xxlarge'' then 36
                else 28)"
    unfolding f heading_font_size_def
    by (simp add: font_size_map_14 other split: option.split)
  from heading_font_size_14 [of cfg] f have "fontSize el \<in> {16, 21, 25, 30, 36, 28}"
    by simp
  then have "(16 :: rat) \<le> of_int (fontSize el) \<and> (of_int (fontSize el) :: rat) \<le> 468 / 10"
    by auto
  with table show ?thesis by blast
qed

text \<open>
  One heading per label at 375 by 667, then one with an unrecognised label and one whose
  configuration names no size.
\<close>

theorem heading_font_size_mobile_witness:
  "width \<lparr>width = 375, height = 667\<rparr> = 375 \<and>
   map (\<lambda>cfg. map_sum id fontSize
          (create_heading_element cfg (ustr ''Hi'') \<lparr>width = 375, height = 667\<rparr>
             (calculate_base_font_size \<lparr>width = 375, height = 667\<rparr>)))
     [[''fontSize'' \<mapsto> JStr ''small'', ''position'' \<mapsto> JStr ''center-top''],
      [''fontSize'' \<mapsto> JStr ''medium'', ''position'' \<mapsto> JStr ''center-top''],
      [''fontSize'' \<mapsto> JStr ''large'', ''position'' \<mapsto> JStr ''left-top''],
      [''fontSize'' \<mapsto> JStr ''xlarge'', ''position'' \<mapsto> JStr ''center-top''],
      [''fontSize'' \<mapsto> JStr ''xxlarge'', ''position'' \<mapsto> JStr ''center-top''],
      [''fontSize'' \<mapsto> JStr ''huge'', ''position'' \<mapsto> JStr ''center-top''],
      [''position'' \<mapsto> JStr ''center-top'']] =
     [Inr 16, Inr 21, Inr 25, Inr 30, Inr 36, Inr 28, Inr 25]"
proof -
  let ?cs = "\<lparr>width = 375, height = 667\<rparr>"
  have w: "width ?cs = 375" by simp
  have size: "map_sum id fontSize
                (create_heading_element cfg (ustr ''Hi'') ?cs (calculate_base_font_size ?cs)) =
              Inr (case cfg ''fontSize'' of
                     None \<Rightarrow> 25
                   | Some label \<Rightarrow>
                       if label = JStr ''small'' then 16
                       else if label = JStr ''medium'' then 21
                       else if label = JStr ''large'' then 25
                       else if label = JStr ''xlarge'' then 30
                       else if label = JStr ''xxlarge'' then 36
                       else 28)"
    if "cfg ''position'' = Some p" "cfg ''maxChars'' = None" for cfg p
  proof -
    from that obtain el where
      el: "create_heading_element cfg (ustr ''Hi'') ?cs (calculate_base_font_size ?cs) = Inr el"
      by (simp add: create_heading_element_def Let_def)
    from heading_font_size_mobile [OF w el] el show ?thesis by simp
  qed
  show ?thesis
    by (simp add: size)
qed

subsection \<open>Planner durations and section selection\<close>

lemma slide_loop_shape:
  "slide_loop env tp d a mult scale n i secs = Inr sl \<Longrightarrow>
   map estimated_duration sl = map (\<lambda>s. max 8 (of_int (base_duration s) * mult * scale)) secs \<and>
   map ss_content_type sl = map content_type secs"
proof (induction secs arbitrary: i sl)
  case Nil
  then show ?case by simp
next
  case (Cons s secs)
  then show ?case
    by (auto simp: Let_def split: sum.splits)
qed

lemma slide_loop_returns:
  "(\<forall>s \<in> set secs. (\<exists>t. select_optimal_template env s tp d a = Inr t) \<and>
                     (\<exists>ps. generate_section_prompts env (content_type s) tp d a = Inr ps)) \<Longrightarrow>
   \<exists>sl. slide_loop env tp d a mult scale n i secs = Inr sl"
proof (induction secs arbitrary: i)
  case Nil
  show ?case by simp
next
  case (Cons s secs)
  from Cons.prems obtain t where t: "select_optimal_template env s tp d a = Inr t" by auto
  from Cons.prems obtain ps
    where ps: "generate_section_prompts env (content_type s) tp d a = Inr ps" by auto
  from Cons.prems have
    "\<forall>s \<in> set secs. (\<exists>t. select_optimal_template env s tp d a = Inr t) \<and>
                     (\<exists>ps. generate_section_prompts env (content_type s) tp d a = Inr ps)" by simp
  from Cons.IH [OF this, of "i + 1"] obtain sl
    where "slide_loop env tp d a mult scale n (i + 1) secs = Inr sl" by blast
  with t ps show ?case by (simp add: Let_def)
qed

lemma scaled_sum:
  fixes T :: rat
  assumes "T = sum_list (map f secs)" and "T \<noteq> 0"
  shows "sum_list (map (\<lambda>s. f s * (t / T)) secs) = t"
proof -
  have "sum_list (map (\<lambda>s. f s * (t / T)) secs) = sum_list (map f secs) * (t / T)"
    by (rule sum_list_mult_const)
  also have "\<dots> = t" using assms by simp
  finally show ?thesis .
qed

lemma core_sections:
  "t < 90 \<Longrightarrow> map content_type (select_sections_for_duration t d a) =
     [''title-objective'', ''definition'', ''examples'', ''mini-recap'']"
  by (simp add: select_sections_for_duration_def lesson_sections_def)

lemma total_base_duration_pos:
  assumes "d \<in> {''beginner'', ''intermediate'', ''advanced''}"
  shows "0 < total_base_duration d (select_sections_for_duration t d a)"
  using assms
  by (auto simp: total_base_duration_def select_sections_for_duration_def lesson_sections_def
      difficulty_multiplier_def difficulty_multipliers_def)

text \<open>
  C3. For every topic, every difficulty among beginner, intermediate and advanced and every
  positive target duration, each slide's estimated duration is the section's base duration
  times the difficulty multiplier times \<open>target / total_base\<close>, clamped from below at 8.
  Every slide lasts at least 8 seconds, and when the floor is triggered for no slide the
  durations sum to the target (exactly, in rational arithmetic).
\<close>

theorem planner_durations:
  assumes "difficulty \<in> {''beginner'', ''intermediate'', ''advanced''}"
    and "0 < target"
    and "generate_slide_structures env tp difficulty target
           (select_sections_for_duration target difficulty a) a = Inr sl"
  shows "map estimated_duration sl =
           map (\<lambda>section. max 8 (of_int (base_duration section) * difficulty_multiplier difficulty *
                  (target / total_base_duration difficulty (select_sections_for_duration target difficulty a))))
             (select_sections_for_duration target difficulty a) \<and>
         (\<forall>slide \<in> set sl. 8 \<le> estimated_duration slide) \<and>
         ((\<forall>section \<in> set (select_sections_for_duration target difficulty a).
             8 \<le> of_int (base_duration section) * difficulty_multiplier difficulty *
                  (target / total_base_duration difficulty (select_sections_for_duration target difficulty a)))
          \<longrightarrow> sum_list (map estimated_duration sl) = target)"
proof -
  let ?sel = "select_sections_for_duration target difficulty a"
  let ?T = "total_base_duration difficulty ?sel"
  let ?m = "difficulty_multiplier difficulty"
  have pos: "0 < ?T" using assms(1) by (rule total_base_duration_pos)
  then have scale: "duration_scale difficulty target ?sel = target / ?T"
    by (simp add: duration_scale_def)
  from assms(3) have
    "slide_loop env tp difficulty a ?m (target / ?T) (int (length ?sel)) 0 ?sel = Inr sl"
    by (simp add: generate_slide_structures_def scale)
  from slide_loop_shape [OF this] have
    durs: "map estimated_duration sl = map (\<lambda>s. max 8 (of_int (base_duration s) * ?m * (target / ?T))) ?sel"
    by simp
  have floor: "\<forall>slide \<in> set sl. 8 \<le> estimated_duration slide"
  proof
    fix slide assume "slide \<in> set sl"
    then have "estimated_duration slide \<in> set (map estimated_duration sl)" by simp
    then show "8 \<le> estimated_duration slide" unfolding durs by auto
  qed
  have total: "sum_list (map estimated_duration sl) = target"
    if nf: "\<forall>section \<in> set ?sel. 8 \<le> of_int (base_duration section) * ?m * (target / ?T)"
  proof -
    define g :: "lesson_section \<Rightarrow> rat" where "g = (\<lambda>s. (of_int (base_duration s) * ?m) * (target / ?T))"
    have nf': "\<forall>s \<in> set ?sel. 8 \<le> g s" using nf by (simp only: g_def)
    have durs': "map estimated_duration sl = map (\<lambda>s. max 8 (g s)) ?sel"
      using durs by (simp only: g_def)
    have "map (\<lambda>s. max 8 (g s)) ?sel = map g ?sel"
      using nf' by (intro map_cong refl) (simp add: max_def)
    with durs' have "sum_list (map estimated_duration sl) = sum_list (map g ?sel)"
      by (simp only:)
    also have "\<dots> = target"
      unfolding g_def
      by (rule scaled_sum [where T = ?T]) (use pos in \<open>simp_all add: total_base_duration_def\<close>)
    finally show ?thesis .
  qed
  from durs floor total show ?thesis by blast
qed

text \<open>
  C6. For every topic and difficulty, a target duration below 90 seconds selects exactly the
  four core sections title-objective, definition, examples and mini-recap, in catalog order;
  the resulting \<open>LessonStructure\<close> has \<open>total_slides = 4\<close>, that sequence as
  \<open>content_flow\<close>, and every slide lasts at least 8 seconds. The planner returns such a
  structure whenever a template can be selected and the prompts can be built for each
  section of the catalog; when one of the two raises, so does the planner.
\<close>

theorem short_lesson_core_sections:
  assumes "target < 90"
  shows "map content_type (select_sections_for_duration target difficulty a) =
           [''title-objective'', ''definition'', ''examples'', ''mini-recap''] \<and>
         (\<forall>ls. analyze_topic_structure env a tp difficulty target = Inr ls \<longrightarrow>
            total_slides ls = 4 \<and>
            content_flow ls = [''title-objective'', ''definition'', ''examples'', ''mini-recap''] \<and>
            (\<forall>slide \<in> set (slides ls). 8 \<le> estimated_duration slide)) \<and>
         ((\<forall>section \<in> set lesson_sections.
              (\<exists>t. select_optimal_template env section tp difficulty a = Inr t) \<and>
              (\<exists>ps. generate_section_prompts env (content_type section) tp difficulty a = Inr ps)) \<longrightarrow>
          (\<exists>ls. analyze_topic_structure env a tp difficulty target = Inr ls))"
proof -
  let ?sel = "select_sections_for_duration target difficulty a"
  have core: "map content_type ?sel = [''title-objective'', ''definition'', ''examples'', ''mini-recap'']"
    using assms by (rule core_sections)
  have shape: "total_slides ls = 4 \<and>
       content_flow ls = [''title-objective'', ''definition'', ''examples'', ''mini-recap''] \<and>
       (\<forall>slide \<in> set (slides ls). 8 \<le> estimated_duration slide)"
    if ls: "analyze_topic_structure env a tp difficulty target = Inr ls" for ls
  proof -
    from ls obtain sl where
      sl: "generate_slide_structures env tp difficulty target ?sel a = Inr sl"
      and ls_eq: "slides ls = sl" "total_slides ls = int (length sl)"
        "content_flow ls = map ss_content_type sl"
      by (auto simp: analyze_topic_structure_def Let_def split: sum.splits)
    from sl have loop: "slide_loop env tp difficulty a (difficulty_multiplier difficulty)
        (duration_scale difficulty target ?sel) (int (length ?sel)) 0 ?sel = Inr sl"
      by (simp add: generate_slide_structures_def)
    note sh = slide_loop_shape [OF loop]
    from sh core have flow: "map ss_content_type sl =
        [''title-objective'', ''definition'', ''examples'', ''mini-recap'']" by simp
    then have "length (map ss_content_type sl) = 4" by simp
    then have len: "length sl = 4" by simp
    have "\<forall>slide \<in> set sl. 8 \<le> estimated_duration slide"
    proof
      fix slide assume "slide \<in> set sl"
      then have "estimated_duration slide \<in> set (map estimated_duration sl)" by simp
      then show "8 \<le> estimated_duration slide" using sh by auto
    qed
    with flow len ls_eq show ?thesis by simp
  qed
  have returns: "\<exists>ls. analyze_topic_structure env a tp difficulty target = Inr ls"
    if all: "\<forall>section \<in> set lesson_sections.
               (\<exists>t. select_optimal_template env section tp difficulty a = Inr t) \<and>
               (\<exists>ps. generate_section_prompts env (content_type section) tp difficulty a = Inr ps)"
  proof -
    have "set ?sel \<subseteq> set lesson_sections"
      by (auto simp: select_sections_for_duration_def)
    with all have "\<forall>section \<in> set ?sel.
        (\<exists>t. select_optimal_template env section tp difficulty a = Inr t) \<and>
        (\<exists>ps. generate_section_prompts env (content_type section) tp difficulty a = Inr ps)"
      by blast
    from slide_loop_returns [OF this] obtain sl where
      "generate_slide_structures env tp difficulty target ?sel a = Inr sl"
      unfolding generate_slide_structures_def by blast
    then show ?thesis
      by (simp add: analyze_topic_structure_def Let_def)
  qed
  from core shape returns show ?thesis by blast
qed


text \<open>Beginner, 75 seconds: the floor is not triggered and the four durations sum to 75.\<close>

theorem planner_durations_witness:
  "''beginner'' \<in> {''beginner'', ''intermediate'', ''advanced''} \<and> (0::rat) < 75 \<and>
   map_sum id (map estimated_duration)
     (generate_slide_structures
        \<lparr>select_optimal_template =
           (\<lambda>s t d a. Inr \<lparr>st_id = template_id s, st_name = name s, st_templateVariant = None\<rparr>),
         generate_section_prompts = (\<lambda>c t d a. Inr [])\<rparr>
        (ustr ''Photosynthesis'') ''beginner'' 75
        (select_sections_for_duration 75 ''beginner'' Map.empty) Map.empty) =
     Inr [25 / 2, 75 / 4, 125 / 4, 25 / 2] \<and>
   sum_list [25 / 2, 75 / 4, 125 / 4, 25 / 2 :: rat] = 75"
proof -
  let ?env = "\<lparr>select_optimal_template =
           (\<lambda>s t d a. Inr \<lparr>st_id = template_id s, st_name = name s, st_templateVariant = None\<rparr>),
         generate_section_prompts = (\<lambda>c t d a. Inr [])\<rparr>"
  let ?g = "generate_slide_structures ?env (ustr ''Photosynthesis'') ''beginner'' 75
        (select_sections_for_duration 75 ''beginner'' Map.empty) Map.empty"
  have ev: "map_sum id (map estimated_duration) ?g = Inr [25 / 2, 75 / 4, 125 / 4, 25 / 2]"
    by code_simp
  then obtain sl where g: "?g = Inr sl" and d: "map estimated_duration sl = [25 / 2, 75 / 4, 125 / 4, 25 / 2]"
    by (cases ?g) auto
  have diff: "''beginner'' \<in> {''beginner'', ''intermediate'', ''advanced''}" by simp
  have nf: "\<forall>section \<in> set (select_sections_for_duration 75 ''beginner'' Map.empty).
             8 \<le> of_int (base_duration section) * difficulty_multiplier ''beginner'' *
                  (75 / total_base_duration ''beginner'' (select_sections_for_duration 75 ''beginner'' Map.empty))"
    by (simp add: select_sections_for_duration_def lesson_sections_def total_base_duration_def
        difficulty_multiplier_def difficulty_multipliers_def)
  have pos: "(0::rat) < 75" by simp
  from planner_durations [OF diff pos g] nf have "sum_list (map estimated_duration sl) = 75"
    by blast
  with ev d show ?thesis by simp
qed

theorem short_lesson_core_sections_witness:
  "(75::rat) < 90 \<and>
   map content_type (select_sections_for_duration 75 ''beginner'' Map.empty) =
     [''title-objective'', ''definition'', ''examples'', ''mini-recap''] \<and>
   map_sum id (\<lambda>ls. (total_slides ls, content_flow ls, map estimated_duration (slides ls)))
     (analyze_topic_structure
        \<lparr>select_optimal_template =
           (\<lambda>s t d a. Inr \<lparr>st_id = template_id s, st_name = name s, st_templateVariant = None\<rparr>),
         generate_section_prompts = (\<lambda>c t d a. Inr [])\<rparr>
        Map.empty (ustr ''Photosynthesis'') ''beginner'' 75) =
     Inr (4, [''title-objective'', ''definition'', ''examples'', ''mini-recap''],
          [25 / 2, 75 / 4, 125 / 4, 25 / 2])"
proof -
  let ?env = "\<lparr>select_optimal_template =
           (\<lambda>s t d a. Inr \<lparr>st_id = template_id s, st_name = name s, st_templateVariant = None\<rparr>),
         generate_section_prompts = (\<lambda>c t d a. Inr [])\<rparr>"
  have lt: "(75::rat) < 90" by simp
  have ev: "map_sum id (\<lambda>ls. (total_slides ls, content_flow ls, map estimated_duration (slides ls)))
     (analyze_topic_structure ?env Map.empty (ustr ''Photosynthesis'') ''beginner'' 75) =
     Inr (4, [''title-objective'', ''definition'', ''examples'', ''mini-recap''],
          [25 / 2, 75 / 4, 125 / 4, 25 / 2])"
    by code_simp
  from short_lesson_core_sections [OF lt, of "''beginner''" Map.empty ?env "ustr ''Photosynthesis''"] lt ev
  show ?thesis by blast
qed

subsection \<open>Duration estimate\<close>

text \<open>
  C7, amended. For every text with a non-whitespace character and every voice whose
  speaking rate is not zero, \<open>estimate_duration_with_calibration\<close> applies the factor 1.3
  to the word-count estimate and returns \<open>max(computed, 0.05 * charCount, 1.0)\<close>, which is
  at least one second. For every empty or whitespace-only text, and every voice, it
  returns 0.0.
\<close>

theorem estimate_duration_floor:
  "(strip text \<noteq> [] \<and> get_voice_speaking_rate self (voice_or_default self voice) \<noteq> 0 \<longrightarrow>
      estimate_duration_with_calibration self text voice =
        Inr (max (max ((of_nat (length (split_ws text)) /
                         get_voice_speaking_rate self (voice_or_default self voice) * 60) * (13 / 10))
                      (of_nat (length text) * (5 / 100)))
                 1) \<and>
      (\<exists>d. estimate_duration_with_calibration self text voice = Inr d \<and> 1 \<le> d)) \<and>
   (strip text = [] \<longrightarrow> estimate_duration_with_calibration self text voice = Inr 0)"
  by (simp add: estimate_duration_with_calibration_def Let_def)

theorem estimate_duration_floor_witness:
  "strip (ustr ''hello world'') \<noteq> [] \<and>
   get_voice_speaking_rate
     \<lparr>default_voice = ustr ''en_US-lessac-medium'', voice_calibrations = Map.empty\<rparr>
     (voice_or_default
        \<lparr>default_voice = ustr ''en_US-lessac-medium'', voice_calibrations = Map.empty\<rparr> None) = 285 / 2 \<and>
   estimate_duration_with_calibration
     \<lparr>default_voice = ustr ''en_US-lessac-medium'', voice_calibrations = Map.empty\<rparr>
     (ustr ''hello world'') None = Inr (104 / 95) \<and> (1::rat) \<le> 104 / 95 \<and>
   strip (ustr ''  '') = [] \<and>
   estimate_duration_with_calibration
     \<lparr>default_voice = ustr ''en_US-lessac-medium'', voice_calibrations = Map.empty\<rparr>
     (ustr ''  '') (Some (ustr ''en_US-ryan-high'')) = Inr 0"
proof -
  let ?svc = "\<lparr>default_voice = ustr ''en_US-lessac-medium'', voice_calibrations = Map.empty\<rparr>"
  have s: "strip (ustr ''hello world'') \<noteq> []"
    by (simp add: strip_def is_space_def ustr_def)
  have r: "get_voice_speaking_rate ?svc (voice_or_default ?svc None) = 285 / 2"
    by (simp add: get_voice_speaking_rate_def voice_or_default_def lower_def startswith_def ustr_def)
  have w: "split_ws (ustr ''hello world'') = [ustr ''hello'', ustr ''world'']"
    by (simp add: split_ws_def is_space_def ustr_def)
  have r0: "get_voice_speaking_rate ?svc (voice_or_default ?svc None) \<noteq> 0"
    unfolding r by simp
  have b: "strip (ustr ''  '') = []"
    by (simp add: strip_def is_space_def ustr_def)
  from estimate_duration_floor [of "ustr ''hello world''" ?svc None] s r0 have
    "estimate_duration_with_calibration ?svc (ustr ''hello world'') None = Inr (104 / 95)"
    unfolding r w by (simp add: ustr_def)
  moreover from estimate_duration_floor [of "ustr ''  ''" ?svc "Some (ustr ''en_US-ryan-high'')"] b
  have "estimate_duration_with_calibration ?svc (ustr ''  '') (Some (ustr ''en_US-ryan-high'')) = Inr 0"
    by blast
  ultimately show ?thesis using s r b by simp
qed

text \<open>
  C7 as stated fails: a blank text takes the early return and gets the estimate 0.0, which
  is below one second.
\<close>

theorem estimate_duration_blank_counterexample:
  "estimate_duration_with_calibration
     \<lparr>default_voice = ustr ''en_US-lessac-medium'', voice_calibrations = Map.empty\<rparr>
     (ustr '' '') None = Inr 0 \<and>
   \<not> ((1::rat) \<le> 0)"
  by (simp add: estimate_duration_with_calibration_def strip_def is_space_def ustr_def)

subsection \<open>Merged timeline\<close>

lemma normalize_len: "len_ms (normalize_audio_format a) = len_ms a"
  by (simp add: normalize_audio_format_def Let_def set_frame_rate_def set_channels_def
      set_sample_width_def from_mono_audiosegments_def)

lemma timed_segment_fields:
  "start_time (timed_segment sg c d) = seconds c"
  "duration (timed_segment sg c d) = seconds d"
  "end_time (timed_segment sg c d) = seconds (c + d)"
  "seg_slide_number (timed_segment sg c d) = seg_slide_number sg"
  "audio_id (timed_segment sg c d) = audio_id sg"
  by (simp_all add: timed_segment_def)

lemma fade_out_positive:
  "0 < d \<Longrightarrow> \<exists>a'. fade_out env a d = Inr a' \<and> (d \<le> int (len_ms a) \<longrightarrow> a' = a)"
  by (simp add: fade_out_def)

lemma fade_in_positive:
  "0 < d \<Longrightarrow> \<exists>a'. fade_in env a d = Inr a' \<and> (d \<le> int (len_ms a) \<longrightarrow> a' = a)"
  by (simp add: fade_in_def)

lemma clip_ms_file: "fs p = Some (Some a) \<Longrightarrow> clip_ms fs p = int (len_ms (normalize_audio_format a))"
  by (simp add: clip_ms_def from_file_def)

lemma start_ms_Suc:
  "i < length paths \<Longrightarrow>
   start_ms self fs paths (Suc i) =
     (start_ms self fs paths i + clip_ms fs (paths ! i)) + pause_duration_ms self"
  by (simp add: start_ms_def take_Suc_conv_app_nth algebra_simps)

text \<open>
  The loop appends one segment per clip; segment \<open>k\<close> of the rest starts after the pauses and
  the clips before it. When no fade meets a clip shorter than itself, the merged audio
  grows by the clips and the pauses.
\<close>

lemma merge_loop_result:
  assumes "\<forall>p \<in> set rest. \<exists>a. fs p = Some (Some a)"
    and "i + length rest \<le> length info"
    and "rest = [] \<or> 0 < fd"
  shows "\<exists>m' cur' upd'.
           merge_loop self env fs (Some info) fd i rest (m, cur, upd) = Inr (m', cur', upd') \<and>
           length upd' = length upd + length rest \<and>
           (\<forall>k < length upd. upd' ! k = upd ! k) \<and>
           (\<forall>k < length rest.
              upd' ! (length upd + k) =
                timed_segment (info ! (i + k))
                  (cur + sum_list (map (clip_ms fs) (take k rest)) +
                   (int k + 1) * pause_duration_ms self)
                  (clip_ms fs (rest ! k))) \<and>
           (0 \<le> pause_duration_ms self \<and> fd \<le> int (len_ms m) \<and>
            (\<forall>p \<in> set rest. fd \<le> clip_ms fs p) \<longrightarrow>
              int (len_ms m') =
                int (len_ms m) + sum_list (map (clip_ms fs) rest) +
                int (length rest) * pause_duration_ms self)"
  using assms
proof (induction rest arbitrary: i m cur upd)
  case Nil
  then show ?case by simp
next
  case (Cons p ps)
  let ?pause = "pause_duration_ms self"
  from Cons.prems(3) have fd: "0 < fd" by simp
  from Cons.prems(1) obtain a where a: "fs p = Some (Some a)" by auto
  then have ff: "from_file fs p = Inr a" by (simp add: from_file_def)
  let ?n = "normalize_audio_format a"
  let ?d = "int (len_ms ?n)"
  have cp: "clip_ms fs p = ?d" using a by (simp add: clip_ms_def from_file_def)
  from Cons.prems(2) have i: "i < length info" and ne: "info \<noteq> []" by auto
  from fade_out_positive [OF fd, of env m] obtain mf where
    mf: "fade_out env m fd = Inr mf" and mf_same: "fd \<le> int (len_ms m) \<longrightarrow> mf = m" by blast
  from fade_in_positive [OF fd, of env ?n] obtain nf where
    nf: "fade_in env ?n fd = Inr nf" and nf_same: "fd \<le> ?d \<longrightarrow> nf = ?n" by blast
  let ?silence = "set_sample_width (set_channels (silent ?pause (frame_rate mf)) (channels mf))
                    (sample_width mf)"
  let ?m1 = "append_audio (append_audio mf ?silence) nf"
  let ?sg = "timed_segment (info ! i) (cur + ?pause) ?d"
  have step: "merge_loop self env fs (Some info) fd i (p # ps) (m, cur, upd) =
              merge_loop self env fs (Some info) fd (i + 1) ps (?m1, cur + ?pause + ?d, upd @ [?sg])"
    using ff mf nf i ne by (simp add: Let_def)
  from Cons.prems(1) have all: "\<forall>p \<in> set ps. \<exists>a. fs p = Some (Some a)" by simp
  from Cons.prems(2) have bound: "(i + 1) + length ps \<le> length info" by simp
  from fd have fd': "ps = [] \<or> 0 < fd" by simp
  from Cons.IH [OF all bound fd', of ?m1 "cur + ?pause + ?d" "upd @ [?sg]"]
  obtain m' cur' upd' where
    r: "merge_loop self env fs (Some info) fd (i + 1) ps (?m1, cur + ?pause + ?d, upd @ [?sg]) =
          Inr (m', cur', upd')"
    and len: "length upd' = length (upd @ [?sg]) + length ps"
    and pre: "\<forall>k < length (upd @ [?sg]). upd' ! k = (upd @ [?sg]) ! k"
    and new: "\<forall>k < length ps.
                upd' ! (length (upd @ [?sg]) + k) =
                  timed_segment (info ! (i + 1 + k))
                    (cur + ?pause + ?d + sum_list (map (clip_ms fs) (take k ps)) +
                     (int k + 1) * ?pause)
                    (clip_ms fs (ps ! k))"
    and grow: "0 \<le> ?pause \<and> fd \<le> int (len_ms ?m1) \<and> (\<forall>p \<in> set ps. fd \<le> clip_ms fs p) \<longrightarrow>
                 int (len_ms m') =
                   int (len_ms ?m1) + sum_list (map (clip_ms fs) ps) + int (length ps) * ?pause"
    by blast
  have c1: "length upd' = length upd + length (p # ps)" using len by simp
  have c2: "\<forall>k < length upd. upd' ! k = upd ! k"
    using pre by (simp add: nth_append)
  have c3: "upd' ! (length upd + k) =
              timed_segment (info ! (i + k))
                (cur + sum_list (map (clip_ms fs) (take k (p # ps))) + (int k + 1) * ?pause)
                (clip_ms fs ((p # ps) ! k))"
    if k: "k < length (p # ps)" for k
  proof (cases k)
    case 0
    from pre have "upd' ! length upd = (upd @ [?sg]) ! length upd" by simp
    then show ?thesis using 0 cp by simp
  next
    case (Suc j)
    with k have j: "j < length ps" by simp
    from new j have "upd' ! (length (upd @ [?sg]) + j) =
        timed_segment (info ! (i + 1 + j))
          (cur + ?pause + ?d + sum_list (map (clip_ms fs) (take j ps)) + (int j + 1) * ?pause)
          (clip_ms fs (ps ! j))" by blast
    moreover have "cur + ?pause + ?d + sum_list (map (clip_ms fs) (take j ps)) + (int j + 1) * ?pause =
        cur + sum_list (map (clip_ms fs) (take (Suc j) (p # ps))) + (int (Suc j) + 1) * ?pause"
      using cp by (simp add: algebra_simps)
    ultimately show ?thesis using Suc by simp
  qed
  have c4: "int (len_ms m') =
              int (len_ms m) + sum_list (map (clip_ms fs) (p # ps)) + int (length (p # ps)) * ?pause"
    if s: "0 \<le> ?pause" "fd \<le> int (len_ms m)" "\<forall>q \<in> set (p # ps). fd \<le> clip_ms fs q"
  proof -
    from s(2) mf_same have "mf = m" by simp
    moreover from s(3) cp nf_same have "nf = ?n" by simp
    ultimately have l1: "int (len_ms ?m1) = int (len_ms m) + ?pause + ?d"
      using s(1) by (simp add: append_audio_def silent_def set_channels_def set_sample_width_def)
    with s(1,2) have "fd \<le> int (len_ms ?m1)" by simp
    with grow s(1,3) have "int (len_ms m') =
        int (len_ms ?m1) + sum_list (map (clip_ms fs) ps) + int (length ps) * ?pause" by simp
    with l1 cp show ?thesis by (simp add: algebra_simps)
  qed
  from step r c1 c2 c3 c4 show ?case by (intro exI conjI) (simp_all only:, blast+)
qed

lemma merge_with_silence_result:
  assumes "audio_file_paths \<noteq> []"
    and "\<forall>p \<in> set audio_file_paths. \<exists>a. fs p = Some (Some a)"
    and "length audio_file_paths \<le> length info"
    and "length audio_file_paths = 1 \<or> 0 < fd"
    and "dirname out \<noteq> []"
    and "can_export env out"
  shows "\<exists>total segs.
           merge_audio_files_with_silence self env fs audio_file_paths out (Some info) fd =
             Inr (out, total, segs) \<and>
           length segs = length audio_file_paths \<and>
           (\<forall>i < length audio_file_paths.
              segs ! i = timed_segment (info ! i) (start_ms self fs audio_file_paths i)
                           (clip_ms fs (audio_file_paths ! i))) \<and>
           (length audio_file_paths = 1 \<or>
            (0 \<le> pause_duration_ms self \<and> (\<forall>p \<in> set audio_file_paths. fd \<le> clip_ms fs p)) \<longrightarrow>
              total = seconds (sum_list (map (clip_ms fs) audio_file_paths) +
                               (int (length audio_file_paths) - 1) * pause_duration_ms self))"
proof -
  let ?pause = "pause_duration_ms self"
  from assms(1) obtain p ps where paths: "audio_file_paths = p # ps" by (cases audio_file_paths) auto
  from assms(3) paths obtain sg sgs where info: "info = sg # sgs" by (cases info) auto
  from assms(2) paths obtain a where a: "fs p = Some (Some a)" by auto
  then have ff: "from_file fs p = Inr a" by (simp add: from_file_def)
  from assms(2) have ex: "\<not> (\<exists>q \<in> set audio_file_paths. fs q = None)" by fastforce
  let ?m = "normalize_audio_format a"
  let ?d = "int (len_ms ?m)"
  have cp: "clip_ms fs p = ?d" using a by (simp add: clip_ms_def from_file_def)
  from assms(2) paths have all: "\<forall>q \<in> set ps. \<exists>a. fs q = Some (Some a)" by simp
  from assms(3) paths have bound: "1 + length ps \<le> length info" by simp
  from assms(4) paths have fd: "ps = [] \<or> 0 < fd" by simp
  from merge_loop_result [OF all bound fd, of self env ?m "0 + ?d" "[timed_segment sg 0 ?d]"]
  obtain m' cur' upd' where
    r: "merge_loop self env fs (Some info) fd 1 ps (?m, 0 + ?d, [timed_segment sg 0 ?d]) =
          Inr (m', cur', upd')"
    and len: "length upd' = length [timed_segment sg 0 ?d] + length ps"
    and pre: "\<forall>k < length [timed_segment sg 0 ?d]. upd' ! k = [timed_segment sg 0 ?d] ! k"
    and new: "\<forall>k < length ps.
                upd' ! (length [timed_segment sg 0 ?d] + k) =
                  timed_segment (info ! (1 + k))
                    (0 + ?d + sum_list (map (clip_ms fs) (take k ps)) + (int k + 1) * ?pause)
                    (clip_ms fs (ps ! k))"
    and grow: "0 \<le> ?pause \<and> fd \<le> int (len_ms ?m) \<and> (\<forall>q \<in> set ps. fd \<le> clip_ms fs q) \<longrightarrow>
                 int (len_ms m') =
                   int (len_ms ?m) + sum_list (map (clip_ms fs) ps) + int (length ps) * ?pause"
    by blast
  have res: "merge_audio_files_with_silence self env fs audio_file_paths out (Some info) fd =
             Inr (out, seconds (int (len_ms m')), upd')"
    using ex r ff assms(5,6) unfolding merge_audio_files_with_silence_def paths [symmetric]
    by (simp add: paths info Let_def)
  have c1: "length upd' = length audio_file_paths" using len paths by simp
  have c2: "upd' ! k = timed_segment (info ! k) (start_ms self fs audio_file_paths k)
                         (clip_ms fs (audio_file_paths ! k))"
    if k: "k < length audio_file_paths" for k
  proof (cases k)
    case 0
    from pre have "upd' ! 0 = timed_segment sg 0 ?d" by simp
    then show ?thesis using 0 cp by (simp add: paths info start_ms_def)
  next
    case (Suc j)
    with k paths have j: "j < length ps" by simp
    from new j have "upd' ! (length [timed_segment sg 0 ?d] + j) =
        timed_segment (info ! (1 + j))
          (0 + ?d + sum_list (map (clip_ms fs) (take j ps)) + (int j + 1) * ?pause)
          (clip_ms fs (ps ! j))" by blast
    moreover have "0 + ?d + sum_list (map (clip_ms fs) (take j ps)) + (int j + 1) * ?pause =
        start_ms self fs audio_file_paths (Suc j)"
      using cp by (simp add: start_ms_def paths algebra_simps)
    ultimately show ?thesis using Suc by (simp add: paths)
  qed
  have c3: "seconds (int (len_ms m')) =
              seconds (sum_list (map (clip_ms fs) audio_file_paths) +
                       (int (length audio_file_paths) - 1) * ?pause)"
    if s: "length audio_file_paths = 1 \<or>
           (0 \<le> ?pause \<and> (\<forall>q \<in> set audio_file_paths. fd \<le> clip_ms fs q))"
  proof (cases "ps = []")
    case True
    with r have "m' = ?m" by simp
    with True cp show ?thesis by (simp add: paths)
  next
    case False
    with s paths have s': "0 \<le> ?pause" "\<forall>q \<in> set audio_file_paths. fd \<le> clip_ms fs q" by auto
    from s'(2) paths cp have "fd \<le> int (len_ms ?m)" "\<forall>q \<in> set ps. fd \<le> clip_ms fs q" by auto
    with grow s'(1) have "int (len_ms m') =
        int (len_ms ?m) + sum_list (map (clip_ms fs) ps) + int (length ps) * ?pause" by simp
    then show ?thesis using cp by (simp add: paths algebra_simps)
  qed
  from res c1 c2 c3 show ?thesis by (intro exI conjI) (simp_all only:, blast+)
qed

text \<open>Values of the float operations that the examples need.\<close>

lemma example_seconds:
  "seconds 0 = 0" "seconds 500 = 1 / 2" "seconds 3000 = 3" "seconds 5000 = 5"
  "seconds 5500 = 11 / 2" "seconds 8500 = 17 / 2" "seconds 14000 = 14"
  by code_simp+

lemma example_float_add:
  "float_add 0 2 = 2" "float_add 5 4 = 9" "float_add 0 3 = 3"
  by code_simp+

lemma rounded_sum_differs: "float_add (seconds 1506) (seconds 500) \<noteq> seconds 2006"
  by code_simp

lemmas merger_defs = merge_audio_files_with_silence_def from_file_def normalize_audio_format_def
  set_frame_rate_def set_channels_def set_sample_width_def from_mono_audiosegments_def
  fade_out_def fade_in_def silent_def append_audio_def timed_segment_def dirname_def rfind_def
  example_env_def example_merger_def clip_def slide_segment_def ustr_def Let_def

lemma three_clips_merged:
  "merge_audio_files_with_silence example_merger example_env three_clips three_paths
     (ustr ''merged/lesson.wav'') (Some three_segments) 50 =
   Inr (ustr ''merged/lesson.wav'', seconds 14000,
          [\<lparr>seg_slide_number = 1, seg_text = [], start_time = seconds 0, duration = seconds 5000,
            end_time = seconds 5000, audio_id = Some (ustr ''a''), audio_url = None\<rparr>,
           \<lparr>seg_slide_number = 2, seg_text = [], start_time = seconds 5500, duration = seconds 3200,
            end_time = seconds 8700, audio_id = Some (ustr ''b''), audio_url = None\<rparr>,
           \<lparr>seg_slide_number = 3, seg_text = [], start_time = seconds 9200, duration = seconds 4800,
            end_time = seconds 14000, audio_id = Some (ustr ''c''), audio_url = None\<rparr>])"
  by (simp add: merger_defs three_clips_def three_paths_def three_segments_def)

lemma two_clips_merged:
  "merge_audio_files_with_silence example_merger example_env two_clips
     [ustr ''cache/a.wav'', ustr ''cache/b.wav''] (ustr ''merged/lesson.wav'')
     (Some three_segments) 50 =
   Inr (ustr ''merged/lesson.wav'', seconds 3006,
          [\<lparr>seg_slide_number = 1, seg_text = [], start_time = seconds 0, duration = seconds 1506,
            end_time = seconds 1506, audio_id = Some (ustr ''a''), audio_url = None\<rparr>,
           \<lparr>seg_slide_number = 2, seg_text = [], start_time = seconds 2006, duration = seconds 1000,
            end_time = seconds 3006, audio_id = Some (ustr ''b''), audio_url = None\<rparr>])"
  by (simp add: merger_defs two_clips_def three_segments_def)

text \<open>
  C1 as stated fails twice. Its example is wrong: three clips of 5.0, 3.2 and 4.8 seconds
  with the default pause of 500 ms merge to \<open>5.0 + 3.2 + 4.8 + 2 * 0.5 = 14.0\<close> seconds,
  not 13.5, and the difference of half a second is more than the four fades of 50 ms
  could account for. And the equalities between times in seconds do not hold in floats:
  after a first clip of 1506 ms the second segment starts at \<open>2006 / 1000.0\<close>, which is
  not the float sum of the first end time \<open>1506 / 1000.0\<close> and the pause
  \<open>500 / 1000.0\<close> (2.006 against 2.0060000000000002).
\<close>

theorem merge_three_clips_counterexample:
  "merge_audio_files_with_silence example_merger example_env three_clips three_paths
     (ustr ''merged/lesson.wav'') (Some three_segments) 50 =
   Inr (ustr ''merged/lesson.wav'', seconds 14000,
          [\<lparr>seg_slide_number = 1, seg_text = [], start_time = seconds 0, duration = seconds 5000,
            end_time = seconds 5000, audio_id = Some (ustr ''a''), audio_url = None\<rparr>,
           \<lparr>seg_slide_number = 2, seg_text = [], start_time = seconds 5500, duration = seconds 3200,
            end_time = seconds 8700, audio_id = Some (ustr ''b''), audio_url = None\<rparr>,
           \<lparr>seg_slide_number = 3, seg_text = [], start_time = seconds 9200, duration = seconds 4800,
            end_time = seconds 14000, audio_id = Some (ustr ''c''), audio_url = None\<rparr>]) \<and>
   seconds 14000 = 14 \<and> \<not> \<bar>(14 :: rat) - 135 / 10\<bar> \<le> 2 / 10 \<and>
   merge_audio_files_with_silence example_merger example_env two_clips
     [ustr ''cache/a.wav'', ustr ''cache/b.wav''] (ustr ''merged/lesson.wav'')
     (Some three_segments) 50 =
   Inr (ustr ''merged/lesson.wav'', seconds 3006,
          [\<lparr>seg_slide_number = 1, seg_text = [], start_time = seconds 0, duration = seconds 1506,
            end_time = seconds 1506, audio_id = Some (ustr ''a''), audio_url = None\<rparr>,
           \<lparr>seg_slide_number = 2, seg_text = [], start_time = seconds 2006, duration = seconds 1000,
            end_time = seconds 3006, audio_id = Some (ustr ''b''), audio_url = None\<rparr>]) \<and>
   seconds 2006 \<noteq> float_add (seconds 1506) (seconds 500)"
  using three_clips_merged two_clips_merged rounded_sum_differs example_seconds(7)
  by simp

text \<open>
  C1, amended. For every call of \<open>merge_audio_files_with_silence\<close> with \<open>N \<ge> 1\<close>
  existing, decodable clips, at least \<open>N\<close> entries of segment metadata, an output path in
  a directory that can be created and written, and a positive fade when \<open>N \<ge> 2\<close>, the
  call returns \<open>N\<close> segments whose times are counts of milliseconds divided by \<open>1000.0\<close>.
  In milliseconds the timing relations are exact: segment \<open>i\<close> lasts as long as the
  normalized clip \<open>i\<close>, ends at its start plus its duration, and the next segment starts one
  pause after that end. When moreover the pause is not negative and no clip is shorter than
  the fade (or \<open>N = 1\<close>), the total is the sum of the clip lengths plus \<open>N - 1\<close> pauses, in
  milliseconds, divided by \<open>1000.0\<close>: clips of 5.0, 3.2 and 4.8 seconds with a pause of
  500 ms give 14.0 seconds. Lengths are taken at pydub's resolution of one millisecond.
\<close>

theorem merge_with_silence_timeline:
  assumes "audio_file_paths \<noteq> []"
    and "\<forall>p \<in> set audio_file_paths. \<exists>a. fs p = Some (Some a)"
    and "length audio_file_paths \<le> length info"
    and "length audio_file_paths = 1 \<or> 0 < fade_duration_ms"
    and "dirname output_path \<noteq> []"
    and "can_export env output_path"
  shows "\<exists>total segs.
           merge_audio_files_with_silence self env fs audio_file_paths output_path (Some info)
             fade_duration_ms = Inr (output_path, total, segs) \<and>
           length segs = length audio_file_paths \<and>
           (\<forall>i < length segs.
              start_time (segs ! i) = seconds (start_ms self fs audio_file_paths i) \<and>
              duration (segs ! i) = seconds (clip_ms fs (audio_file_paths ! i)) \<and>
              end_time (segs ! i) =
                seconds (start_ms self fs audio_file_paths i + clip_ms fs (audio_file_paths ! i))) \<and>
           (\<forall>i. Suc i < length segs \<longrightarrow>
              start_ms self fs audio_file_paths (Suc i) =
                (start_ms self fs audio_file_paths i + clip_ms fs (audio_file_paths ! i)) +
                pause_duration_ms self) \<and>
           (length audio_file_paths = 1 \<or>
            (0 \<le> pause_duration_ms self \<and>
             (\<forall>p \<in> set audio_file_paths. fade_duration_ms \<le> clip_ms fs p)) \<longrightarrow>
              total = seconds (sum_list (map (clip_ms fs) audio_file_paths) +
                               (int (length audio_file_paths) - 1) * pause_duration_ms self))"
proof -
  from merge_with_silence_result [OF assms, of self] obtain total segs where
    r: "merge_audio_files_with_silence self env fs audio_file_paths output_path (Some info)
          fade_duration_ms = Inr (output_path, total, segs)"
    and l: "length segs = length audio_file_paths"
    and t: "\<forall>i < length audio_file_paths.
              segs ! i = timed_segment (info ! i) (start_ms self fs audio_file_paths i)
                           (clip_ms fs (audio_file_paths ! i))"
    and s: "length audio_file_paths = 1 \<or>
            (0 \<le> pause_duration_ms self \<and>
             (\<forall>p \<in> set audio_file_paths. fade_duration_ms \<le> clip_ms fs p)) \<longrightarrow>
              total = seconds (sum_list (map (clip_ms fs) audio_file_paths) +
                               (int (length audio_file_paths) - 1) * pause_duration_ms self)"
    by blast
  have times: "\<forall>i < length segs.
              start_time (segs ! i) = seconds (start_ms self fs audio_file_paths i) \<and>
              duration (segs ! i) = seconds (clip_ms fs (audio_file_paths ! i)) \<and>
              end_time (segs ! i) =
                seconds (start_ms self fs audio_file_paths i + clip_ms fs (audio_file_paths ! i))"
    using t l by (simp add: timed_segment_fields)
  have next_start: "\<forall>i. Suc i < length segs \<longrightarrow>
              start_ms self fs audio_file_paths (Suc i) =
                (start_ms self fs audio_file_paths i + clip_ms fs (audio_file_paths ! i)) +
                pause_duration_ms self"
    using l by (simp add: start_ms_Suc)
  from r l times next_start s show ?thesis by blast
qed

theorem merge_with_silence_timeline_witness:
  "three_paths \<noteq> [] \<and>
   map three_clips three_paths = [Some (clip 5000), Some (clip 3200), Some (clip 4800)] \<and>
   length three_paths \<le> length three_segments \<and>
   (0 :: int) < 50 \<and>
   dirname (ustr ''merged/lesson.wav'') = ustr ''merged'' \<and>
   can_export example_env (ustr ''merged/lesson.wav'') \<and>
   (0 :: int) \<le> pause_duration_ms example_merger \<and>
   map (clip_ms three_clips) three_paths = [5000, 3200, 4800] \<and>
   merge_audio_files_with_silence example_merger example_env three_clips three_paths
     (ustr ''merged/lesson.wav'') (Some three_segments) 50 =
   Inr (ustr ''merged/lesson.wav'', seconds 14000,
          [\<lparr>seg_slide_number = 1, seg_text = [], start_time = seconds 0, duration = seconds 5000,
            end_time = seconds 5000, audio_id = Some (ustr ''a''), audio_url = None\<rparr>,
           \<lparr>seg_slide_number = 2, seg_text = [], start_time = seconds 5500, duration = seconds 3200,
            end_time = seconds 8700, audio_id = Some (ustr ''b''), audio_url = None\<rparr>,
           \<lparr>seg_slide_number = 3, seg_text = [], start_time = seconds 9200, duration = seconds 4800,
            end_time = seconds 14000, audio_id = Some (ustr ''c''), audio_url = None\<rparr>]) \<and>
   map (start_ms example_merger three_clips three_paths) [0, 1, 2] = [0, 5500, 9200] \<and>
   sum_list (map (clip_ms three_clips) three_paths) +
     (int (length three_paths) - 1) * pause_duration_ms example_merger = 14000"
  using three_clips_merged
    merge_with_silence_timeline [of three_paths three_clips three_segments 50
      "ustr ''merged/lesson.wav''" example_env example_merger]
  by (simp add: three_clips_def three_paths_def three_segments_def clip_ms_def start_ms_def
      from_file_def normalize_audio_format_def set_frame_rate_def set_channels_def
      set_sample_width_def from_mono_audiosegments_def dirname_def rfind_def example_env_def
      example_merger_def clip_def ustr_def Let_def)

subsection \<open>Segments without audio\<close>

lemma update_timing_step_length [simp]:
  "length (update_timing_step m s i) = length s"
  by (simp add: update_timing_step_def Let_def split: option.splits)

lemma update_timing_step_other:
  "k \<noteq> i \<Longrightarrow> update_timing_step m s i ! k = s ! k"
  by (simp add: update_timing_step_def Let_def split: option.splits)

lemma update_timing_step_audio_id:
  "audio_id (update_timing_step m s i ! k) = audio_id (s ! k)"
  by (cases "k = i"; cases "i < length s")
     (simp_all add: update_timing_step_def Let_def list_update_beyond not_less split: option.splits)

lemma update_timing_step_silent:
  assumes "i < length s" and "m (seg_slide_number (s ! i)) = None"
  shows "start_time (update_timing_step m s i ! i) = last_audio_end_time s i"
    and "end_time (update_timing_step m s i ! i) =
           float_add (last_audio_end_time s i) (duration (s ! i))"
  using assms by (simp_all add: update_timing_step_def Let_def)

lemma last_audio_end_time_cong:
  "(\<forall>j < i. s ! j = t ! j) \<Longrightarrow> last_audio_end_time s i = last_audio_end_time t i"
  by (induction i) simp_all

lemma last_audio_end_time_none:
  "(\<forall>j < i. \<not> has_audio (s ! j)) \<Longrightarrow> last_audio_end_time s i = 0"
  by (induction i) simp_all

lemma last_audio_end_time_nearest:
  "j < i \<Longrightarrow> has_audio (s ! j) \<Longrightarrow> (\<forall>k. j < k \<and> k < i \<longrightarrow> \<not> has_audio (s ! k)) \<Longrightarrow>
   last_audio_end_time s i = end_time (s ! j)"
proof (induction i)
  case 0
  then show ?case by simp
next
  case (Suc i)
  show ?case
  proof (cases "j = i")
    case True
    with Suc.prems show ?thesis by simp
  next
    case False
    with Suc.prems have "j < i" and "\<not> has_audio (s ! i)" by auto
    with Suc show ?thesis by simp
  qed
qed

text \<open>The state of the list after the first \<open>n\<close> iterations.\<close>

lemma fold_upt_Suc:
  "fold f [0..<Suc n] s = f n (fold f [0..<n] s)"
  by simp

lemma timing_prefix_length:
  "length (fold (\<lambda>i segs. update_timing_step m segs i) [0..<n] s) = length s"
  by (induction n) simp_all

lemma timing_prefix_untouched:
  "n \<le> k \<Longrightarrow> fold (\<lambda>i segs. update_timing_step m segs i) [0..<n] s ! k = s ! k"
  by (induction n) (simp_all add: update_timing_step_other)

lemma timing_prefix_stable:
  "k < n \<Longrightarrow> n \<le> n' \<Longrightarrow>
   fold (\<lambda>i segs. update_timing_step m segs i) [0..<n'] s ! k =
   fold (\<lambda>i segs. update_timing_step m segs i) [0..<n] s ! k"
proof (induction n')
  case 0
  then show ?case by simp
next
  case (Suc n')
  show ?case
  proof (cases "n = Suc n'")
    case True
    then show ?thesis by simp
  next
    case False
    with Suc.prems have "n \<le> n'" by simp
    with Suc have "fold (\<lambda>i segs. update_timing_step m segs i) [0..<n'] s ! k =
      fold (\<lambda>i segs. update_timing_step m segs i) [0..<n] s ! k" by simp
    moreover from Suc.prems \<open>n \<le> n'\<close> have "k \<noteq> n'" by simp
    ultimately show ?thesis by (simp add: update_timing_step_other)
  qed
qed

lemma timing_prefix_audio_id:
  "audio_id (fold (\<lambda>i segs. update_timing_step m segs i) [0..<n] s ! k) = audio_id (s ! k)"
  by (induction n) (simp_all add: update_timing_step_audio_id)

lemma update_segment_timing_silent:
  assumes i: "i < length segs"
    and notin: "updated_segments_map updated (seg_slide_number (segs ! i)) = None"
  shows "length (update_segment_timing segs updated) = length segs"
    and "start_time (update_segment_timing segs updated ! i) =
           last_audio_end_time (update_segment_timing segs updated) i"
    and "end_time (update_segment_timing segs updated ! i) =
           float_add (start_time (update_segment_timing segs updated ! i)) (duration (segs ! i))"
    and "\<forall>k. has_audio (update_segment_timing segs updated ! k) = has_audio (segs ! k)"
proof -
  let ?m = "updated_segments_map updated"
  let ?R = "\<lambda>n. fold (\<lambda>i segs. update_timing_step ?m segs i) [0..<n] segs"
  let ?res = "update_segment_timing segs updated"
  have res: "?res = ?R (length segs)" by (simp add: update_segment_timing_def)
  show "length ?res = length segs" by (simp add: res timing_prefix_length)
  have at_i: "?R i ! i = segs ! i" by (simp add: timing_prefix_untouched)
  have li: "i < length (?R i)" using i by (simp add: timing_prefix_length)
  have ni: "?m (seg_slide_number (?R i ! i)) = None" using notin at_i by simp
  have fin: "?res ! i = ?R (Suc i) ! i"
    unfolding res using i by (intro timing_prefix_stable) simp_all
  have step: "?R (Suc i) = update_timing_step ?m (?R i) i" by simp
  have pre: "\<forall>j < i. ?R i ! j = ?res ! j"
  proof (intro allI impI)
    fix j assume "j < i"
    then have "?res ! j = ?R i ! j"
      unfolding res using i by (intro timing_prefix_stable) simp_all
    then show "?R i ! j = ?res ! j" by simp
  qed
  note sil = update_timing_step_silent [where s = "?R i" and i = i and m = ?m, OF li ni]
  have l: "last_audio_end_time (?R i) i = last_audio_end_time ?res i"
    by (rule last_audio_end_time_cong [OF pre])
  show st: "start_time (?res ! i) = last_audio_end_time ?res i"
    unfolding fin step using sil(1) l by simp
  show "end_time (?res ! i) = float_add (start_time (?res ! i)) (duration (segs ! i))"
    using st unfolding fin step using sil l at_i by simp
  show "\<forall>k. has_audio (?res ! k) = has_audio (segs ! k)"
    unfolding res by (simp add: has_audio_def timing_prefix_audio_id)
qed

lemma merge_loop_slide_numbers:
  "merge_loop self env fs sinfo fd i rest (m, cur, upd) = Inr (m', cur', upd') \<Longrightarrow>
   seg_slide_number ` set upd' \<subseteq>
     seg_slide_number ` set upd \<union>
     (case sinfo of None \<Rightarrow> {} | Some info \<Rightarrow> seg_slide_number ` set info)"
proof (induction rest arbitrary: i m cur upd)
  case Nil
  then show ?case by auto
next
  case (Cons p ps)
  from Cons.prems obtain a where a: "from_file fs p = Inr a"
    by (cases "from_file fs p") simp_all
  from Cons.prems a obtain mf where mf: "fade_out env m fd = Inr mf"
    by (cases "fade_out env m fd") (simp_all add: Let_def)
  from Cons.prems a mf obtain nf where nf: "fade_in env (normalize_audio_format a) fd = Inr nf"
    by (cases "fade_in env (normalize_audio_format a) fd") (simp_all add: Let_def)
  show ?case
  proof (cases sinfo)
    case None
    with Cons.prems a mf nf Cons.IH show ?thesis
      by (simp add: Let_def)
  next
    case (Some info)
    show ?thesis
    proof (cases "info \<noteq> [] \<and> i < length info")
      case True
      then have mem: "seg_slide_number (info ! i) \<in> seg_slide_number ` set info" by simp
      from Cons.prems a mf nf Some True obtain m1 c1 where
        "merge_loop self env fs sinfo fd (i + 1) ps
           (m1, c1, upd @ [timed_segment (info ! i) (cur + pause_duration_ms self)
                             (int (len_ms (normalize_audio_format a)))]) = Inr (m', cur', upd')"
        by (simp add: Let_def)
      from Cons.IH [OF this] mem Some show ?thesis
        by (auto simp: timed_segment_fields)
    next
      case False
      with Cons.prems a mf nf Some obtain m1 c1 where
        "merge_loop self env fs sinfo fd (i + 1) ps (m1, c1, upd) = Inr (m', cur', upd')"
        by (auto simp: Let_def)
      from Cons.IH [OF this] show ?thesis .
    qed
  qed
qed

lemma merge_with_silence_slide_numbers:
  assumes "merge_audio_files_with_silence self env fs paths out (Some info) fd =
             Inr (out', total_duration, upd)"
  shows "seg_slide_number ` set upd \<subseteq> seg_slide_number ` set info"
proof -
  from assms obtain p ps where paths: "paths = p # ps"
    by (cases paths) (simp_all add: merge_audio_files_with_silence_def)
  from assms paths obtain a where a: "from_file fs p = Inr a"
    by (cases "from_file fs p")
       (simp_all add: merge_audio_files_with_silence_def split: if_splits)
  let ?m = "normalize_audio_format a"
  let ?st = "case Some info of
               Some (first_info # _) \<Rightarrow>
                 let segment_duration_ms = int (len_ms ?m)
                 in (?m, 0 + segment_duration_ms, [timed_segment first_info 0 segment_duration_ms])
             | _ \<Rightarrow> (?m, 0, [])"
  obtain m0 c0 u0 where st: "?st = (m0, c0, u0)" by (cases ?st) auto
  have u0: "seg_slide_number ` set u0 \<subseteq> seg_slide_number ` set info"
    using st by (cases info) (auto simp: Let_def timed_segment_fields)
  from assms paths a st obtain m' cur' where
    "merge_loop self env fs (Some info) fd 1 ps (m0, c0, u0) = Inr (m', cur', upd)"
    by (auto simp: merge_audio_files_with_silence_def Let_def split: if_splits sum.splits)
  from merge_loop_slide_numbers [OF this] u0 show ?thesis by auto
qed

lemmas lesson_defs = merge_lesson_audio_def segments_with_audio_def audio_paths_def
  get_audio_path_def update_segment_timing_def update_timing_step_def updated_segments_map_def
  has_audio_def

lemma repeated_slide_example:
  "merge_lesson_audio example_env lesson_clips (ustr ''cache'') (ustr ''merged/lesson.wav'')
     repeated_slide_segments 9 =
   ([\<lparr>seg_slide_number = 1, seg_text = [], start_time = 0, duration = 5, end_time = 5,
      audio_id = Some (ustr ''a''), audio_url = None\<rparr>,
     \<lparr>seg_slide_number = 1, seg_text = [], start_time = 0, duration = 5, end_time = 5,
      audio_id = None, audio_url = None\<rparr>],
    5, True)"
  by (simp add: lesson_defs merger_defs lesson_clips_def repeated_slide_segments_def
      example_seconds)

text \<open>
  C2 as stated fails when two segments carry the same slide number: the update looks the
  merged timing up by slide number, so a segment without audio that shares its number with
  a segment that has audio receives that segment's timing. Here the second segment has no
  audio and follows a segment that ends at 5.0, yet it starts at 0.0 and its duration of 3
  seconds is replaced by 5. Nothing on the path of the endpoint checks that slide numbers
  are distinct.
\<close>

theorem silent_segment_repeated_slide_counterexample:
  "merge_lesson_audio example_env lesson_clips (ustr ''cache'') (ustr ''merged/lesson.wav'')
     repeated_slide_segments 9 =
   ([\<lparr>seg_slide_number = 1, seg_text = [], start_time = 0, duration = 5, end_time = 5,
      audio_id = Some (ustr ''a''), audio_url = None\<rparr>,
     \<lparr>seg_slide_number = 1, seg_text = [], start_time = 0, duration = 5, end_time = 5,
      audio_id = None, audio_url = None\<rparr>],
    5, True) \<and>
   audio_id (repeated_slide_segments ! 1) = None \<and>
   has_audio (repeated_slide_segments ! 0) \<and>
   duration (repeated_slide_segments ! 1) = 3 \<and>
   (0 :: rat) \<noteq> 5 \<and> (5 :: rat) \<noteq> float_add 0 3"
  using repeated_slide_example
  by (simp add: repeated_slide_segments_def slide_segment_def has_audio_def ustr_def
      example_float_add)

text \<open>
  C2, amended. When the slide numbers of the segments are pairwise distinct, then after the
  post-merge timing update every segment whose \<open>audio_id\<close> is \<open>None\<close> starts at the
  updated end time of the nearest preceding segment that has audio, or at 0.0 when no
  segment with audio precedes it, and ends at the float sum of that start and its own
  (estimated) duration.
\<close>

theorem silent_segment_anchoring:
  assumes "distinct (map seg_slide_number audio_segments)"
    and "merge_lesson_audio env fs cache_dir out audio_segments current_time =
           (segs', total_duration, True)"
    and "i < length audio_segments"
    and "audio_id (audio_segments ! i) = None"
  shows "length segs' = length audio_segments \<and>
         (\<forall>j < i. has_audio (segs' ! j) \<and> (\<forall>k. j < k \<and> k < i \<longrightarrow> \<not> has_audio (segs' ! k)) \<longrightarrow>
                  start_time (segs' ! i) = end_time (segs' ! j)) \<and>
         ((\<forall>j < i. \<not> has_audio (segs' ! j)) \<longrightarrow> start_time (segs' ! i) = 0) \<and>
         end_time (segs' ! i) = float_add (start_time (segs' ! i)) (duration (audio_segments ! i))"
proof -
  let ?with = "segments_with_audio fs cache_dir audio_segments"
  let ?merger = "\<lparr>crossfade_duration_ms = 1500, pause_duration_ms = 500, output_format = ''wav''\<rparr>"
  from assms(2) obtain out' updated where
    mg: "merge_audio_files_with_silence ?merger env fs (audio_paths cache_dir ?with) out
           (Some ?with) 50 = Inr (out', total_duration, updated)"
    and segs': "segs' = update_segment_timing audio_segments updated"
    by (auto simp: merge_lesson_audio_def Let_def split: if_splits sum.splits)
  have sub: "seg_slide_number ` set updated \<subseteq> seg_slide_number ` set ?with"
    by (rule merge_with_silence_slide_numbers [OF mg])
  have "seg_slide_number (audio_segments ! i) \<notin> seg_slide_number ` set ?with"
  proof
    assume "seg_slide_number (audio_segments ! i) \<in> seg_slide_number ` set ?with"
    then obtain s where s: "s \<in> set ?with"
      and eq: "seg_slide_number s = seg_slide_number (audio_segments ! i)" by auto
    from s have sin: "s \<in> set audio_segments" and sa: "audio_id s \<noteq> None"
      by (auto simp: segments_with_audio_def split: option.splits)
    from sin obtain j where j: "j < length audio_segments" "audio_segments ! j = s"
      by (auto simp: in_set_conv_nth)
    from assms(1) have "inj_on seg_slide_number (set audio_segments)" and "distinct audio_segments"
      by (simp_all add: distinct_map)
    with eq sin assms(3) have "s = audio_segments ! i"
      by (auto dest: inj_onD)
    with sa assms(4) show False by simp
  qed
  with sub have "seg_slide_number (audio_segments ! i) \<notin> seg_slide_number ` set updated" by blast
  then have notin: "updated_segments_map updated (seg_slide_number (audio_segments ! i)) = None"
    by (simp add: updated_segments_map_def map_of_eq_None_iff image_image)
  note u = update_segment_timing_silent [OF assms(3) notin]
  let ?res = "update_segment_timing audio_segments updated"
  have near: "start_time (?res ! i) = end_time (?res ! j)"
    if "j < i" "has_audio (?res ! j)" "\<forall>k. j < k \<and> k < i \<longrightarrow> \<not> has_audio (?res ! k)" for j
    using u(2) last_audio_end_time_nearest [OF that] by simp
  have none: "start_time (?res ! i) = 0" if "\<forall>j < i. \<not> has_audio (?res ! j)"
    using u(2) last_audio_end_time_none [OF that] by simp
  from u(1) u(3) near none show ?thesis unfolding segs' by blast
qed

text \<open>
  Four slides, the second and fourth with audio of 5 and 3 seconds: the first is anchored
  at 0.0 and the third at the end of the second.
\<close>

lemma lesson_audio_example:
  "merge_lesson_audio example_env lesson_clips (ustr ''cache'') (ustr ''merged/lesson.wav'')
     lesson_segments 15 =
   ([\<lparr>seg_slide_number = 1, seg_text = [], start_time = 0, duration = 2, end_time = 2,
      audio_id = None, audio_url = None\<rparr>,
     \<lparr>seg_slide_number = 2, seg_text = [], start_time = 0, duration = 5, end_time = 5,
      audio_id = Some (ustr ''a''), audio_url = None\<rparr>,
     \<lparr>seg_slide_number = 3, seg_text = [], start_time = 5, duration = 4, end_time = 9,
      audio_id = None, audio_url = None\<rparr>,
     \<lparr>seg_slide_number = 4, seg_text = [], start_time = 11 / 2, duration = 3, end_time = 17 / 2,
      audio_id = Some (ustr ''b''), audio_url = None\<rparr>],
    17 / 2, True)"
  by (simp add: lesson_defs merger_defs lesson_clips_def lesson_segments_def
      example_seconds example_float_add)

theorem silent_segment_anchoring_witness:
  "distinct (map seg_slide_number lesson_segments) \<and>
   merge_lesson_audio example_env lesson_clips (ustr ''cache'') (ustr ''merged/lesson.wav'')
     lesson_segments 15 =
   ([\<lparr>seg_slide_number = 1, seg_text = [], start_time = 0, duration = 2, end_time = 2,
      audio_id = None, audio_url = None\<rparr>,
     \<lparr>seg_slide_number = 2, seg_text = [], start_time = 0, duration = 5, end_time = 5,
      audio_id = Some (ustr ''a''), audio_url = None\<rparr>,
     \<lparr>seg_slide_number = 3, seg_text = [], start_time = 5, duration = 4, end_time = 9,
      audio_id = None, audio_url = None\<rparr>,
     \<lparr>seg_slide_number = 4, seg_text = [], start_time = 11 / 2, duration = 3, end_time = 17 / 2,
      audio_id = Some (ustr ''b''), audio_url = None\<rparr>],
    17 / 2, True) \<and>
   audio_id (lesson_segments ! 2) = None \<and> duration (lesson_segments ! 2) = 4 \<and>
   audio_id (lesson_segments ! 0) = None \<and> duration (lesson_segments ! 0) = 2 \<and>
   float_add 5 4 = 9 \<and> float_add 0 2 = 2"
  using lesson_audio_example
    silent_segment_anchoring [OF _ lesson_audio_example, of 2]
    silent_segment_anchoring [OF _ lesson_audio_example, of 0]
  by (simp add: lesson_segments_def slide_segment_def has_audio_def ustr_def example_float_add)

subsection \<open>Sanitizer\<close>

lemma re_sub_aux_numeral:
  "re_sub_aux m (numeral k) prev (c # cs) = re_sub_aux m (pred_numeral k) (Some c) cs"
  by (simp add: numeral_eq_Suc)

lemma replace_aux_numeral:
  "replace_aux old new (numeral k) (c # cs) = replace_aux old new (pred_numeral k) cs"
  by (simp add: numeral_eq_Suc)

lemmas matcher_defs = prefix_matcher_def step_matcher_def delimited_matcher_def
  colon_before_matcher_def colon_eol_matcher_def header_matcher_def code_block_matcher_def
  inline_code_matcher_def link_matcher_def bullet_matcher_def whitespace_matcher_def
  dots_matcher_def spaced_dots_matcher_def at_line_start_def ws_run_def startswith_def
  ci_char_def is_space_def














































subsection \<open>Template filler\<close>

lemma call_llm_result:
  assumes "call_llm self n p c = (rs, r)"
  shows "r = Inl PyException \<or> (\<exists>v. r = Inr v \<and> LlmRaises \<notin> set rs)"
  using assms
  by (auto simp: call_llm_def Let_def split: option.splits llm_response.splits if_splits sum.splits)
     metis

lemma fill_placeholders_raise:
  "fill_placeholders self sl tp cons items trace filled = (trace', r) \<Longrightarrow>
   LlmRaises \<notin> set trace \<Longrightarrow> LlmRaises \<in> set trace' \<Longrightarrow> r = Inl PyException"
proof (induction items arbitrary: trace filled)
  case Nil
  then show ?case by simp
next
  case (Cons item rest)
  obtain k v where item: "item = (k, v)" by (cases item)
  show ?case
  proof (cases "llmPrompts sl k")
    case None
    with Cons.prems item have
      "fill_placeholders self sl tp cons rest trace
         (filled(k \<mapsto> (case fallbackData sl k of Some v \<Rightarrow> v
            | None \<Rightarrow> ustr ''[No content generated for '' @ ustr k @ ustr '']''))) = (trace', r)"
      by simp
    from Cons.IH [OF this Cons.prems(2) Cons.prems(3)] show ?thesis .
  next
    case (Some prompt_template)
    let ?ec = "case map_of cons k of None \<Rightarrow> Map.empty | Some c \<Rightarrow> c"
    let ?call = "call_llm self (length trace) (build_prompt prompt_template tp ?ec) ?ec"
    obtain rs res where call: "?call = (rs, res)" by (cases ?call)
    from call_llm_result [OF call] show ?thesis
    proof
      assume "res = Inl PyException"
      with Cons.prems(1) item Some call show ?thesis by (simp add: Let_def)
    next
      assume "\<exists>v. res = Inr v \<and> LlmRaises \<notin> set rs"
      then obtain raw where res: "res = Inr raw" and clean: "LlmRaises \<notin> set rs" by blast
      from Cons.prems(1) item Some call res have
        "fill_placeholders self sl tp cons rest (trace @ rs)
           (filled(k \<mapsto> sanitize_llm_output raw)) = (trace', r)"
        by (simp add: Let_def)
      moreover from clean Cons.prems(2) have "LlmRaises \<notin> set (trace @ rs)" by simp
      ultimately show ?thesis using Cons.prems(3) by (rule Cons.IH)
    qed
  qed
qed

lemma py_index_valid: "0 \<le> i \<Longrightarrow> i < int (length xs) \<Longrightarrow> py_index xs i = Inr (xs ! nat i)"
  by (simp add: py_index_def)

text \<open>
  C4. For every template, topic and valid slide index, \<open>fill_template\<close> returns a
  \<open>FilledTemplate\<close>. If the language model raises while a placeholder is filled, the
  result is flagged \<open>is_fallback\<close> and its content is the slide's \<open>fallbackData\<close>, for all
  fields; a fill whose content generation completes without an exception is flagged
  \<open>is_fallback = False\<close> and carries the generated content. A result flagged
  \<open>is_fallback\<close> never holds generated content.
\<close>

theorem fill_template_fallback:
  assumes "0 \<le> idx" and "idx < int (length (t_slides tmpl))"
  shows "\<exists>ft. fst (fill_template self st tmpl tp idx container_size) = Inr ft \<and>
           (let sl = t_slides tmpl ! nat idx;
                cons = fst (get_responsive_constraints sl container_size st);
                run = generate_content_with_llm self sl tp cons
            in (LlmRaises \<in> set (fst run) \<longrightarrow>
                  is_fallback ft \<and> filled_content ft = fallbackData sl) \<and>
               (\<forall>filled. snd run = Inr filled \<longrightarrow>
                  \<not> is_fallback ft \<and> filled_content ft = filled) \<and>
               (is_fallback ft \<longrightarrow>
                  filled_content ft = fallbackData sl \<and> (\<exists>e. snd run = Inl e)))"
proof -
  let ?sl = "t_slides tmpl ! nat idx"
  obtain cons st' where rc: "get_responsive_constraints ?sl container_size st = (cons, st')"
    by (cases "get_responsive_constraints ?sl container_size st")
  let ?run = "generate_content_with_llm self ?sl tp cons"
  obtain trace res where run: "?run = (trace, res)" by (cases ?run)
  have ix: "py_index (t_slides tmpl) idx = Inr ?sl" by (rule py_index_valid [OF assms])
  have raise: "res = Inl PyException" if "LlmRaises \<in> set trace"
    using run that fill_placeholders_raise [of self ?sl tp cons "placeholders ?sl" "[]" Map.empty trace res]
    by (simp add: generate_content_with_llm_def)
  show ?thesis
  proof (cases res)
    case (Inl e)
    then show ?thesis
      using assms ix rc run
      by (simp add: fill_template_def create_fallback_template_def Let_def)
  next
    case (Inr filled)
    then show ?thesis
      using assms ix rc run raise
      by (auto simp: fill_template_def Let_def)
  qed
qed

lemmas filler_defs = fill_template_def py_index_def get_responsive_constraints_def
  extract_constraints_def deref_def dict_get_def generate_content_with_llm_def call_llm_def
  build_prompt_def validate_and_trim_content_def create_fallback_template_def
  example_template_def example_slide_def example_store_def
  replace_def str_jvalue_def str_int_def split_on_def slice_to_def rfind_def strip_def
  sanitize_llm_output_def count_annotation_matcher_def count_word_matcher_def
  colon_hashes_matcher_def colons_matcher_def formatting_char_def option_prefix_matcher_def
  option_word_length_def artifact_char_def re_sub_def ustr_def Let_def

lemma example_fill_raises:
  "map_sum id (\<lambda>ft. (is_fallback ft, filled_content ft ''heading'', filled_content ft ''content''))
     (fst (fill_template
        \<lparr>ollama_service = Some (\<lambda>n p. if n = 0 then LlmReturns (Some (ustr ''Cells'')) else LlmRaises)\<rparr>
        example_store example_template (ustr ''Biology'') 0 None)) =
   Inr (True, Some (ustr ''Overview''), Some (ustr ''Details''))"
  by (simp add: filler_defs matcher_defs)

lemma example_fill_trace:
  "fst (generate_content_with_llm
     \<lparr>ollama_service = Some (\<lambda>n p. if n = 0 then LlmReturns (Some (ustr ''Cells'')) else LlmRaises)\<rparr>
     example_slide (ustr ''Biology'')
     (fst (get_responsive_constraints example_slide None example_store))) =
   [LlmReturns (Some (ustr ''Cells'')), LlmRaises]"
  by (simp add: filler_defs matcher_defs)

lemma example_fill_succeeds:
  "map_sum id (\<lambda>ft. (is_fallback ft, filled_content ft ''heading'', filled_content ft ''content''))
     (fst (fill_template
        \<lparr>ollama_service = Some (\<lambda>n p. LlmReturns (Some (ustr ''**Cells** ''))) \<rparr>
        example_store example_template (ustr ''Biology'') 0 None)) =
   Inr (False, Some (ustr ''Cells''), Some (ustr ''Cells''))"
  by (simp add: filler_defs matcher_defs re_sub_aux_numeral replace_aux_numeral)

lemma example_fill_mutates:
  "deref example_store 0 ''maxChars'' = Some (JInt 50) \<and>
   deref (snd (fill_template \<lparr>ollama_service = None\<rparr> example_store example_template
                 (ustr ''Biology'') 0 (Some [(''width'', 375), (''height'', 800)])))
     0 ''maxChars'' = Some (JInt 30)"
  by (simp add: filler_defs)

text \<open>
  The model answers the first request and raises at the second: the heading it generated
  is dropped and both fields hold the fallback data. When it answers both, the result is
  not a fallback.
\<close>

theorem fill_template_fallback_witness:
  "(0::int) \<le> 0 \<and> (0::int) < int (length (t_slides example_template)) \<and>
   LlmRaises \<in> set (fst (generate_content_with_llm
     \<lparr>ollama_service = Some (\<lambda>n p. if n = 0 then LlmReturns (Some (ustr ''Cells'')) else LlmRaises)\<rparr>
     example_slide (ustr ''Biology'')
     (fst (get_responsive_constraints example_slide None example_store)))) \<and>
   map_sum id (\<lambda>ft. (is_fallback ft, filled_content ft ''heading'', filled_content ft ''content''))
     (fst (fill_template
        \<lparr>ollama_service = Some (\<lambda>n p. if n = 0 then LlmReturns (Some (ustr ''Cells'')) else LlmRaises)\<rparr>
        example_store example_template (ustr ''Biology'') 0 None)) =
   Inr (True, Some (ustr ''Overview''), Some (ustr ''Details'')) \<and>
   map_sum id (\<lambda>ft. (is_fallback ft, filled_content ft ''heading'', filled_content ft ''content''))
     (fst (fill_template
        \<lparr>ollama_service = Some (\<lambda>n p. LlmReturns (Some (ustr ''**Cells** ''))) \<rparr>
        example_store example_template (ustr ''Biology'') 0 None)) =
   Inr (False, Some (ustr ''Cells''), Some (ustr ''Cells''))"
  using fill_template_fallback [of 0 example_template
      "\<lparr>ollama_service = Some (\<lambda>n p. if n = 0 then LlmReturns (Some (ustr ''Cells'')) else LlmRaises)\<rparr>"
      example_store "ustr ''Biology''" None]
    example_fill_raises example_fill_trace example_fill_succeeds
  by (simp add: example_template_def)

text \<open>
  C9 fails on the code. \<open>_get_responsive_constraints\<close> copies the layout dict only, and
  \<open>update\<close> then writes the overrides of the breakpoint into the configuration that the
  cached template refers to: after a fill at width 375 the heading's \<open>maxChars\<close> in the
  catalog is 30 instead of 50. \<open>_merge_layout_config\<close> of the rendering path computes the
  same merged configuration from copies.
\<close>

theorem fill_template_mutates_cached_layout:
  "deref example_store 0 ''maxChars'' = Some (JInt 50) \<and>
   deref (snd (fill_template \<lparr>ollama_service = None\<rparr> example_store example_template
                 (ustr ''Biology'') 0 (Some [(''width'', 375), (''height'', 800)])))
     0 ''maxChars'' = Some (JInt 30) \<and>
   map (\<lambda>(element_type, cfg). (element_type, cfg ''maxChars''))
     (merge_layout_config example_store (layout example_slide)
        [''heading'' \<mapsto> [''maxChars'' \<mapsto> JInt 30]]) =
   [(''heading'', Some (JInt 30)), (''content'', Some (JInt 200))]"
  using example_fill_mutates
  by (simp add: merge_layout_config_def example_slide_def example_store_def deref_def)

end
